theory Spec2Isabelle
  imports Complex_Main "HOL-Library.Sublist"
begin

section \<open>Shared vocabulary of the two servers\<close>

text \<open>
  The repository holds two variants of one streaming server and a browser client:
  \<^item> \<^verbatim>\<open>src/server.js\<close>, the HLS variant: an RTMP ingest whose publish event spawns one
    \<^verbatim>\<open>ffmpeg\<close> child that writes HLS segments;
  \<^item> \<^verbatim>\<open>src/logger.js\<close> (from line 39 on), the FLV variant: the media server itself serves
    HTTP-FLV, the program tracks the set of published paths and the set of viewers;
  \<^item> \<^verbatim>\<open>src/unnamed/part_000\<close>, the browser client of a peer-connection variant whose server
    is not part of the sources.

  Every handler of the source is a callback on a single event loop. Each one is embedded as
  a function from the state before the callback to the state after it together with the
  list of actions it performed, in program order.
\<close>

type_synonym socket = nat

text \<open>
  A JavaScript \<^verbatim>\<open>Set\<close> keeps its members in insertion order and holds no duplicates: a list
  that \<open>Set_add\<close> extends at the end only when the member is new.
\<close>

definition Set_add :: "'a \<Rightarrow> 'a list \<Rightarrow> 'a list" where
  "Set_add x xs = (if x \<in> set xs then xs else xs @ [x])"

definition Set_delete :: "'a \<Rightarrow> 'a list \<Rightarrow> 'a list" where
  "Set_delete x xs = removeAll x xs"

definition Set_has :: "'a list \<Rightarrow> 'a \<Rightarrow> bool" where
  "Set_has xs x = (x \<in> set xs)"

definition Set_size :: "'a list \<Rightarrow> nat" where
  "Set_size xs = length xs"

text \<open>Decimal rendering of a number inside a template string.\<close>

fun show_nat :: "nat \<Rightarrow> string" where
  "show_nat n =
     (if n < 10 then [''0123456789'' ! n]
      else show_nat (n div 10) @ [''0123456789'' ! (n mod 10)])"

declare show_nat.simps [simp del]

text \<open>
  \<^verbatim>\<open>path.join\<close> on segments that are already normalised, with the POSIX separator.
\<close>

definition path_join :: "string \<Rightarrow> string \<Rightarrow> string" where
  "path_join a b = a @ ''/'' @ b"

text \<open>
  \<^verbatim>\<open>process.env.X || d\<close>: an unset or empty variable gives the default.
\<close>

definition env_or :: "string option \<Rightarrow> string \<Rightarrow> string" where
  "env_or v d = (case v of None \<Rightarrow> d | Some s \<Rightarrow> if s = [] then d else s)"

record net_if =
  family :: string
  internal :: bool
  address :: string

text \<open>
  \<^verbatim>\<open>getLocalIP\<close>: the address of the first external IPv4 interface, in the order of the two
  nested loops, else the loopback address.
\<close>

definition getLocalIP :: "(string \<times> net_if list) list \<Rightarrow> string" where
  "getLocalIP nets =
     (case find (\<lambda>ni. family ni = ''IPv4'' \<and> \<not> internal ni) (concat (map snd nets)) of
        Some ni \<Rightarrow> address ni
      | None \<Rightarrow> ''127.0.0.1'')"

text \<open>The constants of the CONFIG blocks that depend on the environment.\<close>

record config =
  dirname :: string
  SERVER_IP :: string
  HTTP_PORT :: string
  RTMP_PORT :: string
  NMS_HTTP_PORT :: string

definition read_config ::
  "string \<Rightarrow> (string \<times> net_if list) list \<Rightarrow> string option \<Rightarrow> string option \<Rightarrow> string option
     \<Rightarrow> config" where
  "read_config dir nets web rtmp nmshttp =
     \<lparr>dirname = dir, SERVER_IP = getLocalIP nets, HTTP_PORT = env_or web ''3000'',
      RTMP_PORT = env_or rtmp ''1935'', NMS_HTTP_PORT = env_or nmshttp ''8000''\<rparr>"

definition STREAM_KEY :: string where
  "STREAM_KEY = ''stream''"

text \<open>
  The actions a callback can perform. \<open>Log\<close> records which logging function was called
  and with which message; \<open>IoEmit\<close> is \<^verbatim>\<open>io.emit\<close>, which the socket library delivers to
  every connected socket; \<open>SocketEmit\<close> is \<^verbatim>\<open>socket.emit\<close>, delivered to that socket alone.
  \<open>Kill\<close> is \<^verbatim>\<open>ChildProcess.kill\<close>, the only way a Node program asks a child to terminate;
  it belongs to the vocabulary although no callback of the sources performs it.
\<close>

datatype level = Console | Info | Success | Warn | Error | Stream | Client | Server

datatype payload = Count nat | Status bool string

datatype jvalue = JString string | JNat nat | JReal real | JBool bool

datatype effect =
    Log level string
  | StdoutWrite string
  | IoEmit string payload
  | SocketEmit socket string payload
  | Spawn string "string list"
  | Kill nat
  | ResJson "(string \<times> jvalue) list"
  | ResSendFile string
  | ServerClose
  | NmsStop
  | ProcessExit nat

fun is_Spawn :: "effect \<Rightarrow> bool" where
  "is_Spawn (Spawn c as) = True"
| "is_Spawn e = False"

fun is_Kill :: "effect \<Rightarrow> bool" where
  "is_Kill (Kill p) = True"
| "is_Kill e = False"

text \<open>Who receives an action, given the sockets connected when it is performed.\<close>

fun recipients :: "socket list \<Rightarrow> effect \<Rightarrow> socket list" where
  "recipients cs (IoEmit ev p) = cs"
| "recipients cs (SocketEmit k ev p) = [k]"
| "recipients cs e = []"

fun message :: "effect \<Rightarrow> (string \<times> payload) option" where
  "message (IoEmit ev p) = Some (ev, p)"
| "message (SocketEmit k ev p) = Some (ev, p)"
| "message e = None"

text \<open>The viewer counts that a list of actions broadcasts, in order.\<close>

fun counts :: "effect list \<Rightarrow> nat list" where
  "counts [] = []"
| "counts (IoEmit ev (Count n) # es) = (if ev = ''viewerCount'' then n # counts es else counts es)"
| "counts (e # es) = counts es"


section \<open>The HLS variant (src/server.js)\<close>

definition INPUT_APP :: string where
  "INPUT_APP = ''input''"

definition OUTPUT_APP :: string where
  "OUTPUT_APP = ''live''"

definition HLS_DIR :: "config \<Rightarrow> string" where
  "HLS_DIR cfg = path_join (dirname cfg) ''hls''"

text \<open>
  The module-level variables \<^verbatim>\<open>clients\<close> and \<^verbatim>\<open>ffmpegProc\<close> (\<open>None\<close> is \<^verbatim>\<open>null\<close>; a child
  process object is truthy). The last two fields are the part of the operating system that
  \<^verbatim>\<open>spawn\<close> acts on: the children that were spawned and have not exited, and the number of
  \<^verbatim>\<open>spawn\<close> calls so far, which names the next child.
\<close>

record hls_state =
  clients :: "socket list"
  ffmpegProc :: "nat option"
  children :: "nat list"
  spawned :: nat

definition hls_init :: hls_state where
  "hls_init = \<lparr>hls_state.clients = [], ffmpegProc = None, children = [], spawned = 0\<rparr>"

definition ffmpeg_input :: "config \<Rightarrow> string" where
  "ffmpeg_input cfg =
     ''rtmp://127.0.0.1:'' @ RTMP_PORT cfg @ ''/'' @ INPUT_APP @ ''/'' @ STREAM_KEY"

definition ffmpeg_args :: "config \<Rightarrow> string list" where
  "ffmpeg_args cfg =
     [''-fflags'', ''+genpts+discardcorrupt'',
      ''-flags'', ''low_delay'',
      ''-rtbufsize'', ''100M'',
      ''-i'', ffmpeg_input cfg,
      ''-c:v'', ''libx264'',
      ''-preset'', ''ultrafast'',
      ''-tune'', ''zerolatency'',
      ''-x264-params'', ''keyint=30:min-keyint=30:scenecut=0'',
      ''-g'', ''30'',
      ''-c:a'', ''aac'',
      ''-ar'', ''44100'',
      ''-b:a'', ''128k'',
      ''-f'', ''hls'',
      ''-hls_time'', ''1'',
      ''-hls_list_size'', ''5'',
      ''-hls_flags'', ''delete_segments+append_list+omit_endlist+program_date_time'',
      ''-hls_segment_type'', ''mpegts'',
      ''-hls_delete_threshold'', ''1'',
      ''-hls_allow_cache'', ''0'',
      ''-hls_segment_filename'', path_join (HLS_DIR cfg) ''seg_%03d.ts'',
      path_join (HLS_DIR cfg) ''stream.m3u8'']"

text \<open>\<^verbatim>\<open>spawn\<close>: a new child, distinct from every earlier one, joins the running children.\<close>

definition spawn :: "hls_state \<Rightarrow> nat \<times> hls_state" where
  "spawn s = (spawned s, s\<lparr>children := children s @ [spawned s], spawned := Suc (spawned s)\<rparr>)"

text \<open>
  \<^verbatim>\<open>startFFmpeg\<close> (lines 85 to 127): returns at once when a child is tracked, else spawns
  one, stores it in \<^verbatim>\<open>ffmpegProc\<close> and logs its process id.
\<close>

definition startFFmpeg :: "config \<Rightarrow> hls_state \<Rightarrow> hls_state \<times> effect list" where
  "startFFmpeg cfg s =
     (if ffmpegProc s \<noteq> None then (s, [])
      else (case spawn s of (p, s') \<Rightarrow>
              (s'\<lparr>ffmpegProc := Some p\<rparr>,
               [Spawn ''ffmpeg'' (ffmpeg_args cfg),
                Log Console (''[FFmpeg] Started (PID: '' @ show_nat p @ '')'')])))"

text \<open>The listener on the child's diagnostic stream: a dot for each chunk naming a frame.\<close>

definition str_includes :: "string \<Rightarrow> string \<Rightarrow> bool" where
  "str_includes s t = list_ex (prefix t) (suffixes s)"

definition ffmpeg_on_stderr :: "string \<Rightarrow> hls_state \<Rightarrow> hls_state \<times> effect list" where
  "ffmpeg_on_stderr data s = (s, if str_includes data ''frame='' then [StdoutWrite ''.''] else [])"

text \<open>
  The listener on the child's exit (lines 123 to 126). \<^verbatim>\<open>code || signal\<close> is the exit code
  unless that is \<^verbatim>\<open>null\<close> or zero, else the signal, which prints as \<^verbatim>\<open>null\<close> when absent.
\<close>

definition code_or_signal :: "nat option \<Rightarrow> string option \<Rightarrow> string" where
  "code_or_signal code signal =
     (case code of
        Some c \<Rightarrow> if c \<noteq> 0 then show_nat c
                  else (case signal of None \<Rightarrow> ''null'' | Some g \<Rightarrow> g)
      | None \<Rightarrow> (case signal of None \<Rightarrow> ''null'' | Some g \<Rightarrow> g))"

definition ffmpeg_on_exit ::
  "nat option \<Rightarrow> string option \<Rightarrow> hls_state \<Rightarrow> hls_state \<times> effect list" where
  "ffmpeg_on_exit code signal s =
     (s\<lparr>ffmpegProc := None\<rparr>,
      [Log Console (CHR 0x0A # ''[FFmpeg] Exited ('' @ code_or_signal code signal @ '')'')])"

text \<open>The two listeners on the media server (lines 130 to 137).\<close>

definition hls_prePublish ::
  "config \<Rightarrow> string \<Rightarrow> string \<Rightarrow> hls_state \<Rightarrow> hls_state \<times> effect list" where
  "hls_prePublish cfg cid streamPath s =
     (if streamPath = ''/'' @ INPUT_APP @ ''/'' @ STREAM_KEY
      then (case startFFmpeg cfg s of (s', es) \<Rightarrow>
              (s', Log Console (''[NMS prePublish] '' @ streamPath) # es))
      else (s, [Log Console (''[NMS prePublish] '' @ streamPath)]))"

definition hls_donePublish ::
  "string \<Rightarrow> string \<Rightarrow> hls_state \<Rightarrow> hls_state \<times> effect list" where
  "hls_donePublish cid streamPath s = (s, [Log Console (''[NMS donePublish] '' @ streamPath)])"

text \<open>The socket listeners (lines 72 to 80).\<close>

definition hls_connection :: "socket \<Rightarrow> hls_state \<Rightarrow> hls_state \<times> effect list" where
  "hls_connection k s =
     (let s' = s\<lparr>hls_state.clients := Set_add k (hls_state.clients s)\<rparr>
      in (s', [IoEmit ''viewerCount'' (Count (Set_size (hls_state.clients s')))]))"

definition hls_disconnect :: "socket \<Rightarrow> hls_state \<Rightarrow> hls_state \<times> effect list" where
  "hls_disconnect k s =
     (let s' = s\<lparr>hls_state.clients := Set_delete k (hls_state.clients s)\<rparr>
      in (s', [IoEmit ''viewerCount'' (Count (Set_size (hls_state.clients s')))]))"

text \<open>
  The routes (lines 60 to 70). The files under \<^verbatim>\<open>/live\<close> are served by the framework's static
  middleware, which is not embedded.
\<close>

definition hls_api_info :: "config \<Rightarrow> (string \<times> jvalue) list" where
  "hls_api_info cfg =
     [(''ip'', JString (SERVER_IP cfg)),
      (''rtmpIngest'', JString (''rtmp://'' @ SERVER_IP cfg @ '':'' @ RTMP_PORT cfg @ ''/''
                                 @ INPUT_APP @ ''/'' @ STREAM_KEY)),
      (''hls'', JString (''http://'' @ SERVER_IP cfg @ '':'' @ HTTP_PORT cfg
                          @ ''/live/stream.m3u8''))]"

definition hls_root :: "config \<Rightarrow> effect list" where
  "hls_root cfg = [ResSendFile (path_join (path_join (dirname cfg) ''public'') ''viewer.html'')]"

text \<open>
  The listeners that \<^verbatim>\<open>server.js\<close> registers on \<^verbatim>\<open>process\<close>: there is no \<^verbatim>\<open>process.on\<close> call in
  the file, so no signal has one, and no code of the program runs when a signal arrives.
\<close>

definition hls_process_on :: "string \<Rightarrow> (hls_state \<Rightarrow> hls_state \<times> effect list) option" where
  "hls_process_on sig = None"

text \<open>
  The event loop: one event, one callback. A child that exits leaves the running children
  before its exit listener is called.
\<close>

datatype hls_event =
    HConnection socket
  | HDisconnect socket
  | HPrePublish string string
  | HDonePublish string string
  | HFfmpegStderr nat string
  | HFfmpegExit nat "nat option" "string option"
  | HGetRoot
  | HGetApiInfo
  | HSignal string

fun hls_step :: "config \<Rightarrow> hls_event \<Rightarrow> hls_state \<Rightarrow> hls_state \<times> effect list" where
  "hls_step cfg (HConnection k) s = hls_connection k s"
| "hls_step cfg (HDisconnect k) s = hls_disconnect k s"
| "hls_step cfg (HPrePublish cid p) s = hls_prePublish cfg cid p s"
| "hls_step cfg (HDonePublish cid p) s = hls_donePublish cid p s"
| "hls_step cfg (HFfmpegStderr c data) s = ffmpeg_on_stderr data s"
| "hls_step cfg (HFfmpegExit c code signal) s =
     ffmpeg_on_exit code signal (s\<lparr>children := removeAll c (children s)\<rparr>)"
| "hls_step cfg HGetRoot s = (s, hls_root cfg)"
| "hls_step cfg HGetApiInfo s = (s, [ResJson (hls_api_info cfg)])"
| "hls_step cfg (HSignal sig) s =
     (case hls_process_on sig of None \<Rightarrow> (s, []) | Some h \<Rightarrow> h s)"

fun hls_run :: "config \<Rightarrow> hls_event list \<Rightarrow> hls_state \<Rightarrow> hls_state \<times> effect list" where
  "hls_run cfg [] s = (s, [])"
| "hls_run cfg (e # es) s =
     (case hls_step cfg e s of (s', out) \<Rightarrow>
        (case hls_run cfg es s' of (s'', out') \<Rightarrow> (s'', out @ out')))"

text \<open>
  The events the environment can raise in a state: a socket connects once and disconnects
  only while connected (its disconnect listener is registered by its connection callback),
  and only a running child writes diagnostics or exits.
\<close>

fun hls_ok :: "hls_state \<Rightarrow> hls_event \<Rightarrow> bool" where
  "hls_ok s (HConnection k) = (k \<notin> set (hls_state.clients s))"
| "hls_ok s (HDisconnect k) = (k \<in> set (hls_state.clients s))"
| "hls_ok s (HFfmpegStderr c data) = (c \<in> set (children s))"
| "hls_ok s (HFfmpegExit c code signal) = (c \<in> set (children s))"
| "hls_ok s e = True"

fun hls_wf :: "config \<Rightarrow> hls_event list \<Rightarrow> hls_state \<Rightarrow> bool" where
  "hls_wf cfg [] s = True"
| "hls_wf cfg (e # es) s = (hls_ok s e \<and> hls_wf cfg es (fst (hls_step cfg e s)))"

text \<open>The tracked child is the only running child, and the viewer list has no duplicate.\<close>

definition hls_inv :: "hls_state \<Rightarrow> bool" where
  "hls_inv s =
     (children s = (case ffmpegProc s of None \<Rightarrow> [] | Some p \<Rightarrow> [p])
      \<and> distinct (hls_state.clients s))"

definition test_config :: config where
  "test_config =
     \<lparr>dirname = ''/srv/app'', SERVER_IP = ''192.168.1.20'', HTTP_PORT = ''3000'',
      RTMP_PORT = ''1935'', NMS_HTTP_PORT = ''8000''\<rparr>"

text \<open>The state of the HLS variant while its one stream is being published.\<close>

definition hls_publishing :: hls_state where
  "hls_publishing = fst (hls_prePublish test_config ''c1'' ''/input/stream'' hls_init)"


section \<open>The FLV variant (src/logger.js, from line 39)\<close>

definition APP_NAME :: string where
  "APP_NAME = ''live''"

text \<open>The module-level sets \<^verbatim>\<open>activeStreams\<close> (stream paths) and \<^verbatim>\<open>clients\<close> (sockets).\<close>

record flv_state =
  activeStreams :: "string list"
  clients :: "socket list"

definition flv_init :: flv_state where
  "flv_init = \<lparr>activeStreams = [], clients = []\<rparr>"

text \<open>The listeners on the media server (lines 195 to 237).\<close>

definition flv_preConnect :: "string \<Rightarrow> flv_state \<Rightarrow> flv_state \<times> effect list" where
  "flv_preConnect cid s = (s, [Log Stream (''Client connecting: '' @ cid)])"

definition flv_postConnect :: "string \<Rightarrow> flv_state \<Rightarrow> flv_state \<times> effect list" where
  "flv_postConnect cid s = (s, [Log Stream (''Client connected: '' @ cid)])"

definition flv_doneConnect :: "string \<Rightarrow> flv_state \<Rightarrow> flv_state \<times> effect list" where
  "flv_doneConnect cid s = (s, [Log Stream (''Client disconnected: '' @ cid)])"

definition flv_prePublish :: "string \<Rightarrow> string \<Rightarrow> flv_state \<Rightarrow> flv_state \<times> effect list" where
  "flv_prePublish cid StreamPath s =
     (s\<lparr>activeStreams := Set_add StreamPath (activeStreams s)\<rparr>,
      [Log Stream (''Stream publishing started: '' @ StreamPath),
       IoEmit ''streamStatus'' (Status True StreamPath)])"

definition flv_postPublish :: "string \<Rightarrow> string \<Rightarrow> flv_state \<Rightarrow> flv_state \<times> effect list" where
  "flv_postPublish cid StreamPath s = (s, [Log Success (''Stream is now live: '' @ StreamPath)])"

definition flv_donePublish :: "string \<Rightarrow> string \<Rightarrow> flv_state \<Rightarrow> flv_state \<times> effect list" where
  "flv_donePublish cid StreamPath s =
     (s\<lparr>activeStreams := Set_delete StreamPath (activeStreams s)\<rparr>,
      [Log Stream (''Stream ended: '' @ StreamPath),
       IoEmit ''streamStatus'' (Status False StreamPath)])"

definition flv_prePlay :: "string \<Rightarrow> string \<Rightarrow> flv_state \<Rightarrow> flv_state \<times> effect list" where
  "flv_prePlay cid StreamPath s = (s, [Log Stream (''Viewer started watching: '' @ StreamPath)])"

definition flv_postPlay :: "string \<Rightarrow> string \<Rightarrow> flv_state \<Rightarrow> flv_state \<times> effect list" where
  "flv_postPlay cid StreamPath s = (s, [Log Stream (''Viewer connected to: '' @ StreamPath)])"

definition flv_donePlay :: "string \<Rightarrow> string \<Rightarrow> flv_state \<Rightarrow> flv_state \<times> effect list" where
  "flv_donePlay cid StreamPath s = (s, [Log Stream (''Viewer stopped watching: '' @ StreamPath)])"

text \<open>
  The routes (lines 248 to 305). Every request first passes the logging middleware. The
  \<^verbatim>\<open>catch\<close> branches of the routes answer a failure of \<^verbatim>\<open>res.json\<close> or \<^verbatim>\<open>res.sendFile\<close>
  themselves, which these actions do not have here. The uptime and the timestamp of
  \<^verbatim>\<open>/health\<close> are read from the environment.
\<close>

datatype flv_route = FlvJs | Root | ApiInfo | Health real string

fun route_url :: "flv_route \<Rightarrow> string" where
  "route_url FlvJs = ''/flv.min.js''"
| "route_url Root = ''/''"
| "route_url ApiInfo = ''/api/info''"
| "route_url (Health up ts) = ''/health''"

definition flv_api_info :: "config \<Rightarrow> flv_state \<Rightarrow> (string \<times> jvalue) list" where
  "flv_api_info cfg s =
     [(''ip'', JString (SERVER_IP cfg)),
      (''flv'', JString (''http://'' @ SERVER_IP cfg @ '':'' @ NMS_HTTP_PORT cfg @ ''/''
                          @ APP_NAME @ ''/'' @ STREAM_KEY @ ''.flv'')),
      (''rtmpIngest'', JString (''rtmp://'' @ SERVER_IP cfg @ '':'' @ RTMP_PORT cfg @ ''/''
                                 @ APP_NAME @ ''/'' @ STREAM_KEY)),
      (''isLive'', JBool (Set_has (activeStreams s) (''/'' @ APP_NAME @ ''/'' @ STREAM_KEY))),
      (''viewers'', JNat (Set_size (clients s)))]"

definition flv_health :: "real \<Rightarrow> string \<Rightarrow> flv_state \<Rightarrow> (string \<times> jvalue) list" where
  "flv_health up ts s =
     [(''status'', JString ''ok''),
      (''uptime'', JReal up),
      (''timestamp'', JString ts),
      (''activeStreams'', JNat (Set_size (activeStreams s))),
      (''viewers'', JNat (Set_size (clients s)))]"

fun flv_route_handler :: "config \<Rightarrow> flv_route \<Rightarrow> flv_state \<Rightarrow> effect list" where
  "flv_route_handler cfg FlvJs s =
     [ResSendFile (path_join (dirname cfg) ''node_modules/flv.js/dist/flv.min.js'')]"
| "flv_route_handler cfg Root s =
     [ResSendFile (path_join (path_join (dirname cfg) ''public'') ''viewer2.html'')]"
| "flv_route_handler cfg ApiInfo s = [ResJson (flv_api_info cfg s)]"
| "flv_route_handler cfg (Health up ts) s = [ResJson (flv_health up ts s)]"

definition flv_get :: "config \<Rightarrow> flv_route \<Rightarrow> string \<Rightarrow> flv_state \<Rightarrow> flv_state \<times> effect list" where
  "flv_get cfg r ip s =
     (s, Log Info (''GET '' @ route_url r @ '' from '' @ ip) # flv_route_handler cfg r s)"

text \<open>The socket listeners (lines 310 to 335).\<close>

definition flv_connection :: "socket \<Rightarrow> flv_state \<Rightarrow> flv_state \<times> effect list" where
  "flv_connection k s =
     (let s' = s\<lparr>clients := Set_add k (clients s)\<rparr>;
          clientCount = Set_size (clients s')
      in (s',
          [Log Client (''New viewer connected (Total: '' @ show_nat clientCount @ '')''),
           IoEmit ''viewerCount'' (Count clientCount),
           SocketEmit k ''streamStatus''
             (Status (Set_size (activeStreams s') > 0) (''/'' @ APP_NAME @ ''/'' @ STREAM_KEY))]))"

definition flv_disconnect :: "socket \<Rightarrow> flv_state \<Rightarrow> flv_state \<times> effect list" where
  "flv_disconnect k s =
     (let s' = s\<lparr>clients := Set_delete k (clients s)\<rparr>;
          remainingClients = Set_size (clients s')
      in (s',
          [Log Client (''Viewer disconnected (Remaining: '' @ show_nat remainingClients @ '')''),
           IoEmit ''viewerCount'' (Count remainingClients)]))"

definition flv_socket_error :: "string \<Rightarrow> flv_state \<Rightarrow> flv_state \<times> effect list" where
  "flv_socket_error sid s = (s, [Log Error (''Socket error for client '' @ sid)])"

text \<open>
  The listeners on \<^verbatim>\<open>process\<close> (lines 338 to 363). \<^verbatim>\<open>server.close\<close> takes a callback, which
  the HTTP server calls once it has closed: \<open>flv_server_closed\<close>.
\<close>

definition flv_SIGTERM :: "flv_state \<Rightarrow> flv_state \<times> effect list" where
  "flv_SIGTERM s = (s, [Log Warn ''SIGTERM received, shutting down gracefully...'', ServerClose])"

definition flv_SIGINT :: "flv_state \<Rightarrow> flv_state \<times> effect list" where
  "flv_SIGINT s = (s, [Log Warn ''SIGINT received, shutting down gracefully...'', ServerClose])"

definition flv_server_closed :: "flv_state \<Rightarrow> flv_state \<times> effect list" where
  "flv_server_closed s = (s, [Log Info ''HTTP server closed'', NmsStop, ProcessExit 0])"

definition flv_uncaughtException :: "flv_state \<Rightarrow> flv_state \<times> effect list" where
  "flv_uncaughtException s = (s, [Log Error ''Uncaught Exception'', ProcessExit 1])"

definition flv_unhandledRejection :: "flv_state \<Rightarrow> flv_state \<times> effect list" where
  "flv_unhandledRejection s = (s, [Log Error ''Unhandled Rejection at:''])"

definition flv_process_on :: "string \<Rightarrow> (flv_state \<Rightarrow> flv_state \<times> effect list) option" where
  "flv_process_on sig =
     (if sig = ''SIGTERM'' then Some flv_SIGTERM
      else if sig = ''SIGINT'' then Some flv_SIGINT
      else if sig = ''uncaughtException'' then Some flv_uncaughtException
      else if sig = ''unhandledRejection'' then Some flv_unhandledRejection
      else None)"

datatype flv_event =
    FPreConnect string
  | FPostConnect string
  | FDoneConnect string
  | FPrePublish string string
  | FPostPublish string string
  | FDonePublish string string
  | FPrePlay string string
  | FPostPlay string string
  | FDonePlay string string
  | FGet flv_route string
  | FConnection socket
  | FDisconnect socket
  | FSocketError socket string
  | FProcess string
  | FServerClosed

fun flv_step :: "config \<Rightarrow> flv_event \<Rightarrow> flv_state \<Rightarrow> flv_state \<times> effect list" where
  "flv_step cfg (FPreConnect cid) s = flv_preConnect cid s"
| "flv_step cfg (FPostConnect cid) s = flv_postConnect cid s"
| "flv_step cfg (FDoneConnect cid) s = flv_doneConnect cid s"
| "flv_step cfg (FPrePublish cid p) s = flv_prePublish cid p s"
| "flv_step cfg (FPostPublish cid p) s = flv_postPublish cid p s"
| "flv_step cfg (FDonePublish cid p) s = flv_donePublish cid p s"
| "flv_step cfg (FPrePlay cid p) s = flv_prePlay cid p s"
| "flv_step cfg (FPostPlay cid p) s = flv_postPlay cid p s"
| "flv_step cfg (FDonePlay cid p) s = flv_donePlay cid p s"
| "flv_step cfg (FGet r ip) s = flv_get cfg r ip s"
| "flv_step cfg (FConnection k) s = flv_connection k s"
| "flv_step cfg (FDisconnect k) s = flv_disconnect k s"
| "flv_step cfg (FSocketError k sid) s = flv_socket_error sid s"
| "flv_step cfg (FProcess sig) s =
     (case flv_process_on sig of None \<Rightarrow> (s, []) | Some h \<Rightarrow> h s)"
| "flv_step cfg FServerClosed s = flv_server_closed s"

fun flv_run :: "config \<Rightarrow> flv_event list \<Rightarrow> flv_state \<Rightarrow> flv_state \<times> effect list" where
  "flv_run cfg [] s = (s, [])"
| "flv_run cfg (e # es) s =
     (case flv_step cfg e s of (s', out) \<Rightarrow>
        (case flv_run cfg es s' of (s'', out') \<Rightarrow> (s'', out @ out')))"

text \<open>
  The recorded liveness of a stream path: membership in \<^verbatim>\<open>activeStreams\<close>, as \<^verbatim>\<open>/api/info\<close>
  reads it.
\<close>

definition flv_live :: "flv_state \<Rightarrow> string \<Rightarrow> bool" where
  "flv_live s p = Set_has (activeStreams s) p"

text \<open>What an event says about the publication of path \<open>p\<close>, and the last such word.\<close>

fun pub_of :: "string \<Rightarrow> flv_event \<Rightarrow> bool option" where
  "pub_of p (FPrePublish cid q) = (if q = p then Some True else None)"
| "pub_of p (FDonePublish cid q) = (if q = p then Some False else None)"
| "pub_of p e = None"

fun last_pub :: "string \<Rightarrow> flv_event list \<Rightarrow> bool option" where
  "last_pub p [] = None"
| "last_pub p (e # es) = (case last_pub p es of Some b \<Rightarrow> Some b | None \<Rightarrow> pub_of p e)"

text \<open>
  A sequence of publish and unpublish events on one path: \<open>True\<close> is a \<^verbatim>\<open>prePublish\<close>,
  \<open>False\<close> a \<^verbatim>\<open>donePublish\<close>, each with the identifier of its connection.
\<close>

fun publish_events :: "string \<Rightarrow> (bool \<times> string) list \<Rightarrow> flv_event list" where
  "publish_events p [] = []"
| "publish_events p ((b, cid) # bs) =
     (if b then FPrePublish cid p else FDonePublish cid p) # publish_events p bs"

text \<open>The state of the FLV variant while a stream is published under another path.\<close>

definition flv_other_publishing :: flv_state where
  "flv_other_publishing = fst (flv_run test_config [FPrePublish ''c1'' ''/live/other''] flv_init)"

definition flv_publishing :: flv_state where
  "flv_publishing = fst (flv_run test_config [FPrePublish ''c1'' ''/live/stream''] flv_init)"


section \<open>Viewer events and what each viewer receives\<close>

fun flv_is_connect :: "flv_event \<Rightarrow> bool" where
  "flv_is_connect (FConnection k) = True"
| "flv_is_connect e = False"

fun flv_is_disconnect :: "flv_event \<Rightarrow> bool" where
  "flv_is_disconnect (FDisconnect k) = True"
| "flv_is_disconnect e = False"

definition flv_connects :: "flv_event list \<Rightarrow> nat" where
  "flv_connects evs = length (filter flv_is_connect evs)"

definition flv_disconnects :: "flv_event list \<Rightarrow> nat" where
  "flv_disconnects evs = length (filter flv_is_disconnect evs)"

fun hls_is_connect :: "hls_event \<Rightarrow> bool" where
  "hls_is_connect (HConnection k) = True"
| "hls_is_connect e = False"

fun hls_is_disconnect :: "hls_event \<Rightarrow> bool" where
  "hls_is_disconnect (HDisconnect k) = True"
| "hls_is_disconnect e = False"

definition hls_connects :: "hls_event list \<Rightarrow> nat" where
  "hls_connects evs = length (filter hls_is_connect evs)"

definition hls_disconnects :: "hls_event list \<Rightarrow> nat" where
  "hls_disconnects evs = length (filter hls_is_disconnect evs)"

text \<open>
  The events the environment can raise in a state of the FLV variant: a socket connects
  once, and disconnects or reports an error only while connected.
\<close>

fun flv_ok :: "flv_state \<Rightarrow> flv_event \<Rightarrow> bool" where
  "flv_ok s (FConnection k) = (k \<notin> set (clients s))"
| "flv_ok s (FDisconnect k) = (k \<in> set (clients s))"
| "flv_ok s (FSocketError k sid) = (k \<in> set (clients s))"
| "flv_ok s e = True"

fun flv_wf :: "config \<Rightarrow> flv_event list \<Rightarrow> flv_state \<Rightarrow> bool" where
  "flv_wf cfg [] s = True"
| "flv_wf cfg (e # es) s = (flv_ok s e \<and> flv_wf cfg es (fst (flv_step cfg e s)))"

text \<open>
  The messages that reach socket \<open>k\<close> from a list of actions performed while the sockets
  \<open>cs\<close> are connected, and over a whole run. Each callback updates \<^verbatim>\<open>clients\<close> before it
  emits, so the connected sockets are those of the state after the callback.
\<close>

fun delivered :: "socket \<Rightarrow> socket list \<Rightarrow> effect list \<Rightarrow> (string \<times> payload) list" where
  "delivered k cs [] = []"
| "delivered k cs (e # es) =
     (if k \<in> set (recipients cs e)
      then (case message e of Some m \<Rightarrow> m # delivered k cs es | None \<Rightarrow> delivered k cs es)
      else delivered k cs es)"

fun flv_inbox :: "config \<Rightarrow> socket \<Rightarrow> flv_event list \<Rightarrow> flv_state \<Rightarrow> (string \<times> payload) list" where
  "flv_inbox cfg k [] s = []"
| "flv_inbox cfg k (e # es) s =
     (case flv_step cfg e s of (s', out) \<Rightarrow>
        delivered k (clients s') out @ flv_inbox cfg k es s')"

fun hls_inbox :: "config \<Rightarrow> socket \<Rightarrow> hls_event list \<Rightarrow> hls_state \<Rightarrow> (string \<times> payload) list" where
  "hls_inbox cfg k [] s = []"
| "hls_inbox cfg k (e # es) s =
     (case hls_step cfg e s of (s', out) \<Rightarrow>
        delivered k (hls_state.clients s') out @ hls_inbox cfg k es s')"


section \<open>The browser client (src/unnamed/part_000)\<close>

text \<open>
  \<^verbatim>\<open>init\<close> is one \<^verbatim>\<open>async\<close> function inside \<^verbatim>\<open>try\<close>/\<^verbatim>\<open>catch\<close>. What the page and the server answer
  is its environment; a promise that rejects or a call that throws ends the body and runs
  the \<^verbatim>\<open>catch\<close> block. A callback datum that is falsy is \<open>None\<close>. A server that never answers
  leaves \<^verbatim>\<open>init\<close> waiting; the environment here always answers.
\<close>

record info_resp =
  info_ip :: "string option"
  info_mac :: "string option"

record consumer_desc =
  consumer_id :: string
  producerId :: string
  kind :: string
  rtpParameters :: string

record consume_resp =
  consumers :: "consumer_desc list option"

record client_env =
  fetch_info :: "info_resp option"
  has_ipEl :: bool
  has_macEl :: bool
  rtpCapabilities :: "string option"
  device_load_ok :: bool
  transportInfo :: "string option"
  consumeResp :: "consume_resp option"
  consume_ok :: "consumer_desc \<Rightarrow> bool"
  video_play_ok :: bool
  audio_play_ok :: bool
  has_audioEl :: bool

datatype thrown = NewError string | Rejected string

datatype client_effect =
    Fetch string
  | SetText string string
  | Emit string
  | DeviceLoad string
  | CreateRecvTransport string
  | OnTransportConnect
  | TransportConsume consumer_desc
  | CreateAudioElement
  | SetSrcObject string string
  | Play string
  | OnSocket string
  | ConsoleWarn string
  | ConsoleError string thrown
  | SetTimeoutInit nat
  | Callback
  | Errback string

text \<open>\<^verbatim>\<open>info.ip || ''\<close>.\<close>

definition or_empty :: "string option \<Rightarrow> string" where
  "or_empty v = (case v of None \<Rightarrow> [] | Some x \<Rightarrow> x)"

text \<open>The listener on the transport's \<^verbatim>\<open>connect\<close> event (lines 61 to 66).\<close>

definition recv_on_connect :: "bool option \<Rightarrow> client_effect list" where
  "recv_on_connect res =
     [Emit ''connectTransport'',
      if res = Some True then Callback else Errback ''connectTransport fail'']"

text \<open>
  The loop over the consumers (lines 83 to 117); the flag says whether the hidden audio
  element exists. A failing \<^verbatim>\<open>play\<close> is caught in the loop and only warned about; a failing
  \<^verbatim>\<open>recvTransport.consume\<close> throws out of the loop.
\<close>

definition attach_one :: "client_env \<Rightarrow> bool \<Rightarrow> consumer_desc \<Rightarrow> client_effect list" where
  "attach_one env audioEl c =
     (if kind c = ''video''
      then [SetSrcObject ''video'' (consumer_id c), Play ''video'']
           @ (if video_play_ok env then [] else [ConsoleWarn ''video play failed''])
      else if kind c = ''audio''
      then (if audioEl then [] else [CreateAudioElement])
           @ [SetSrcObject ''remote-audio'' (consumer_id c), Play ''remote-audio'']
           @ (if audio_play_ok env then [] else [ConsoleWarn ''audio play fail''])
      else [])"

fun attach_all ::
  "client_env \<Rightarrow> bool \<Rightarrow> consumer_desc list \<Rightarrow> client_effect list \<times> thrown option" where
  "attach_all env audioEl [] = ([], None)"
| "attach_all env audioEl (c # cs) =
     (if \<not> consume_ok env c
      then ([TransportConsume c], Some (Rejected ''recvTransport.consume''))
      else (case attach_all env (audioEl \<or> kind c = ''audio'') cs of (es, err) \<Rightarrow>
              (TransportConsume c # attach_one env audioEl c
                 @ OnSocket (''consumer-resume-'' @ consumer_id c) # es,
               err)))"

text \<open>The steps of \<^verbatim>\<open>init\<close> up to the request to consume (lines 27 to 70).\<close>

definition show_info :: "client_env \<Rightarrow> info_resp \<Rightarrow> client_effect list" where
  "show_info env info =
     (if has_ipEl env then [SetText ''ip'' (or_empty (info_ip info))] else [])
     @ (if has_macEl env then [SetText ''mac'' (or_empty (info_mac info))] else [])"

definition retry_later :: "client_effect list" where
  "retry_later = [ConsoleWarn ''No consumers available yet. Retrying in 1s...'', SetTimeoutInit 1000]"

definition init_body :: "client_env \<Rightarrow> client_effect list \<times> thrown option" where
  "init_body env =
     (case fetch_info env of
        None \<Rightarrow> ([Fetch ''/api/info''], Some (Rejected ''fetch''))
      | Some info \<Rightarrow>
          (let e1 = Fetch ''/api/info'' # show_info env info @ [Emit ''getRouterRtpCapabilities'']
           in case rtpCapabilities env of
                None \<Rightarrow> (e1, Some (NewError ''No rtpCapabilities''))
              | Some caps \<Rightarrow>
                  if \<not> device_load_ok env
                  then (e1 @ [DeviceLoad caps], Some (Rejected ''device.load''))
                  else (let e2 = e1 @ [DeviceLoad caps, Emit ''createTransport'']
                        in case transportInfo env of
                             None \<Rightarrow> (e2, Some (NewError ''createTransport failed''))
                           | Some t \<Rightarrow>
                               (let e3 = e2 @ [CreateRecvTransport t, OnTransportConnect,
                                               Emit ''consume'']
                                in case consumeResp env of
                                     None \<Rightarrow> (e3, Some (NewError ''consume failed''))
                                   | Some resp \<Rightarrow>
                                       (case consumers resp of
                                          None \<Rightarrow> (e3 @ retry_later, None)
                                        | Some cs \<Rightarrow>
                                            if length cs = 0 then (e3 @ retry_later, None)
                                            else (case attach_all env (has_audioEl env) cs of
                                                    (es, None) \<Rightarrow>
                                                      (e3 @ es @ [OnSocket ''stream-status''], None)
                                                  | (es, Some err) \<Rightarrow> (e3 @ es, Some err)))))))"

definition init :: "client_env \<Rightarrow> client_effect list" where
  "init env =
     (case init_body env of
        (es, None) \<Rightarrow> es
      | (es, Some err) \<Rightarrow> es @ [ConsoleError ''init error'' err, SetTimeoutInit 1500])"

text \<open>
  \<^verbatim>\<open>setTimeout(init, ms)\<close> calls \<^verbatim>\<open>init\<close> again, from its first line, in the environment of that
  later time: a list of environments, one for each attempt.
\<close>

fun is_timeout :: "client_effect \<Rightarrow> bool" where
  "is_timeout (SetTimeoutInit ms) = True"
| "is_timeout e = False"

fun is_consume :: "client_effect \<Rightarrow> bool" where
  "is_consume (TransportConsume c) = True"
| "is_consume e = False"

fun negotiate :: "client_env list \<Rightarrow> client_effect list" where
  "negotiate [] = []"
| "negotiate (env # envs) =
     (if list_ex is_timeout (init env) then init env @ negotiate envs else init env)"

text \<open>What \<^verbatim>\<open>init\<close> has done when it has sent its request to consume.\<close>

definition reaches_consume :: "client_env \<Rightarrow> bool" where
  "reaches_consume env =
     (fetch_info env \<noteq> None \<and> rtpCapabilities env \<noteq> None \<and> device_load_ok env
      \<and> transportInfo env \<noteq> None)"

definition before_consume :: "client_env \<Rightarrow> client_effect list" where
  "before_consume env =
     Fetch ''/api/info'' # show_info env (the (fetch_info env))
     @ [Emit ''getRouterRtpCapabilities'', DeviceLoad (the (rtpCapabilities env)),
        Emit ''createTransport'', CreateRecvTransport (the (transportInfo env)),
        OnTransportConnect, Emit ''consume'']"

text \<open>
  Modelled from the spec: the server's answer to \<^verbatim>\<open>consume\<close>; the server of the
  peer-connection variant is not among the sources. The specification (section 4.4) has the
  viewer request "consumption of available producers filtered by its declared capabilities"
  and the server create "one consumer per compatible producer (video/audio)" and return
  the consumer descriptors. Which producers a capability set admits and how a consumer is
  named are parameters.
\<close>

record producer =
  producer_id :: string
  producer_kind :: string
  producer_rtp :: string

definition consume ::
  "(string \<Rightarrow> producer \<Rightarrow> bool) \<Rightarrow> (producer \<Rightarrow> string) \<Rightarrow> producer list \<Rightarrow> string
     \<Rightarrow> consume_resp" where
  "consume compatible name_of producers caps =
     \<lparr>consumers = Some (map (\<lambda>p. \<lparr>consumer_id = name_of p, producerId = producer_id p,
                                   kind = producer_kind p, rtpParameters = producer_rtp p\<rparr>)
                             (filter (compatible caps) producers))\<rparr>"

text \<open>A page and a server that answer every step; the server has no producer yet.\<close>

definition waiting_env :: client_env where
  "waiting_env =
     \<lparr>fetch_info = Some \<lparr>info_ip = Some ''192.168.1.20'', info_mac = None\<rparr>,
      has_ipEl = True, has_macEl = True,
      rtpCapabilities = Some ''caps'', device_load_ok = True, transportInfo = Some ''t1'',
      consumeResp = Some (consume (\<lambda>caps p. True) producer_id [] ''caps''),
      consume_ok = (\<lambda>c. True), video_play_ok = True, audio_play_ok = True,
      has_audioEl = False\<rparr>"

definition camera :: producer where
  "camera = \<lparr>producer_id = ''p1'', producer_kind = ''video'', producer_rtp = ''vp8''\<rparr>"

definition streaming_env :: client_env where
  "streaming_env =
     waiting_env\<lparr>consumeResp := Some (consume (\<lambda>caps p. True) producer_id [camera] ''caps'')\<rparr>"


text \<open>Three runs used as examples.\<close>

definition twice_published :: "hls_event list" where
  "twice_published =
     [HPrePublish ''c1'' ''/input/stream'', HPrePublish ''c2'' ''/input/stream'',
      HPrePublish ''c3'' ''/input/other'']"


definition flv_example :: "flv_event list" where
  "flv_example =
     [FConnection 1, FConnection 2, FPrePublish ''c1'' ''/live/stream'', FConnection 3,
      FDisconnect 2]"

definition hls_example :: "hls_event list" where
  "hls_example = [HConnection 1, HConnection 2, HDisconnect 1]"


section \<open>Properties of the HLS variant\<close>

lemma startFFmpeg_tracked:
  "ffmpegProc s \<noteq> None \<Longrightarrow> startFFmpeg cfg s = (s, [])"
  by (simp add: startFFmpeg_def)

lemma startFFmpeg_untracked:
  "ffmpegProc s = None \<Longrightarrow>
   startFFmpeg cfg s =
     (s\<lparr>children := children s @ [spawned s], spawned := Suc (spawned s),
        ffmpegProc := Some (spawned s)\<rparr>,
      [Spawn ''ffmpeg'' (ffmpeg_args cfg),
       Log Console (''[FFmpeg] Started (PID: '' @ show_nat (spawned s) @ '')'')])"
  by (simp add: startFFmpeg_def spawn_def)

lemma startFFmpeg_tracks: "ffmpegProc (fst (startFFmpeg cfg s)) \<noteq> None"
  by (cases "ffmpegProc s = None") (simp_all add: startFFmpeg_untracked startFFmpeg_tracked)

lemma startFFmpeg_inv: "hls_inv s \<Longrightarrow> hls_inv (fst (startFFmpeg cfg s))"
  by (cases "ffmpegProc s = None")
     (auto simp: startFFmpeg_untracked startFFmpeg_tracked hls_inv_def)

lemma hls_publishing_eq:
  "hls_publishing = \<lparr>hls_state.clients = [], ffmpegProc = Some 0, children = [0], spawned = 1\<rparr>"
  by (simp add: hls_publishing_def hls_prePublish_def INPUT_APP_def STREAM_KEY_def
      startFFmpeg_def spawn_def hls_init_def)

text \<open>
  C9. A publish starts the transcoder exactly when its path is \<^verbatim>\<open>/input/stream\<close> and no child
  is tracked; a publish under any other path performs no spawn and leaves the whole state,
  the tracked child included, as it was.
\<close>

theorem hls_prePublish_spawns_iff:
  "(list_ex is_Spawn (snd (hls_prePublish cfg cid streamPath s))
      = (streamPath = ''/input/stream'' \<and> ffmpegProc s = None))
   \<and> (streamPath \<noteq> ''/input/stream'' \<longrightarrow>
        hls_prePublish cfg cid streamPath s = (s, [Log Console (''[NMS prePublish] '' @ streamPath)]))
   \<and> (streamPath = ''/input/stream'' \<and> ffmpegProc s = None \<longrightarrow>
        ffmpegProc (fst (hls_prePublish cfg cid streamPath s)) = Some (spawned s)
        \<and> children (fst (hls_prePublish cfg cid streamPath s)) = children s @ [spawned s])
   \<and> (ffmpegProc s \<noteq> None \<longrightarrow> fst (hls_prePublish cfg cid streamPath s) = s)"
proof -
  note key = INPUT_APP_def STREAM_KEY_def
  show ?thesis
  proof (cases "streamPath = ''/input/stream''")
    case False
    then show ?thesis
      by (simp add: hls_prePublish_def key)
  next
    case True
    show ?thesis
    proof (cases "ffmpegProc s = None")
      case True
      with \<open>streamPath = ''/input/stream''\<close> show ?thesis
        by (simp add: hls_prePublish_def key startFFmpeg_untracked)
    next
      case False
      then obtain p where "ffmpegProc s = Some p"
        by blast
      with \<open>streamPath = ''/input/stream''\<close> show ?thesis
        by (simp add: hls_prePublish_def key startFFmpeg_tracked)
    qed
  qed
qed

theorem hls_prePublish_spawns_iff_witness:
  "list_ex is_Spawn (snd (hls_prePublish test_config ''c1'' ''/input/stream'' hls_init))
   \<and> ffmpegProc (fst (hls_prePublish test_config ''c1'' ''/input/stream'' hls_init)) = Some 0
   \<and> ''/input/other'' \<noteq> ''/input/stream''
   \<and> hls_prePublish test_config ''c2'' ''/input/other'' hls_publishing
       = (hls_publishing, [Log Console ''[NMS prePublish] /input/other''])
   \<and> ffmpegProc hls_publishing \<noteq> None
   \<and> fst (hls_prePublish test_config ''c3'' ''/input/stream'' hls_publishing) = hls_publishing"
proof -
  have none: "ffmpegProc hls_init = None" "spawned hls_init = 0"
    by (simp_all add: hls_init_def)
  have pub: "ffmpegProc hls_publishing \<noteq> None"
    by (simp add: hls_publishing_eq)
  show ?thesis
    using hls_prePublish_spawns_iff [of test_config "''c1''" "''/input/stream''" hls_init]
      hls_prePublish_spawns_iff [of test_config "''c2''" "''/input/other''" hls_publishing]
      hls_prePublish_spawns_iff [of test_config "''c3''" "''/input/stream''" hls_publishing]
      none pub
    by simp
qed


section \<open>Properties of the FLV variant\<close>

lemma Set_has_add: "Set_has (Set_add q xs) p = (p = q \<or> Set_has xs p)"
  by (auto simp: Set_has_def Set_add_def)

lemma Set_has_delete: "Set_has (Set_delete q xs) p = (p \<noteq> q \<and> Set_has xs p)"
  by (auto simp: Set_has_def Set_delete_def)

lemmas flv_handler_defs =
  flv_preConnect_def flv_postConnect_def flv_doneConnect_def flv_prePublish_def
  flv_postPublish_def flv_donePublish_def flv_prePlay_def flv_postPlay_def flv_donePlay_def
  flv_get_def flv_connection_def flv_disconnect_def flv_socket_error_def
  flv_server_closed_def

lemmas flv_process_defs =
  flv_process_on_def flv_SIGTERM_def flv_SIGINT_def flv_uncaughtException_def
  flv_unhandledRejection_def

lemma fst_flv_run_Cons:
  "fst (flv_run cfg (e # es) s) = fst (flv_run cfg es (fst (flv_step cfg e s)))"
  by (simp split: prod.splits)

lemma snd_flv_run_Cons:
  "snd (flv_run cfg (e # es) s)
     = snd (flv_step cfg e s) @ snd (flv_run cfg es (fst (flv_step cfg e s)))"
  by (simp split: prod.splits)

lemma flv_process_activeStreams:
  "activeStreams (fst (flv_step cfg (FProcess sig) s)) = activeStreams s"
  by (simp add: flv_process_defs)

lemma flv_live_step:
  "flv_live (fst (flv_step cfg e s)) p
     = (case pub_of p e of None \<Rightarrow> flv_live s p | Some b \<Rightarrow> b)"
proof (cases e)
  case (FProcess sig)
  then show ?thesis
    using flv_process_activeStreams [of cfg sig s] by (simp add: flv_live_def)
qed (auto simp: flv_live_def flv_handler_defs Let_def Set_has_add Set_has_delete)

lemma flv_live_run:
  "flv_live (fst (flv_run cfg evs s)) p
     = (case last_pub p evs of None \<Rightarrow> flv_live s p | Some b \<Rightarrow> b)"
proof (induction evs arbitrary: s)
  case Nil
  show ?case by simp
next
  case (Cons e es)
  show ?case
    unfolding fst_flv_run_Cons Cons.IH
    by (simp add: flv_live_step split: option.splits)
qed

lemma last_pub_publish_events:
  "last_pub p (publish_events p bs) = (if bs = [] then None else Some (fst (last bs)))"
proof (induction bs)
  case Nil
  show ?case by simp
next
  case (Cons b bs)
  obtain v cid where b: "b = (v, cid)"
    by (cases b)
  from Cons show ?case
    by (simp add: b)
qed

lemma flv_init_not_live: "\<not> flv_live flv_init p"
  by (simp add: flv_live_def flv_init_def Set_has_def)

text \<open>
  C3. After any finite sequence of \<^verbatim>\<open>prePublish\<close> and \<^verbatim>\<open>donePublish\<close> events on one path, the
  path is recorded live exactly when the last event of the sequence was a \<^verbatim>\<open>prePublish\<close>;
  an empty sequence leaves the liveness as it was, which is not live at the start of the
  program. The same holds when other events are interleaved: the last publish or unpublish
  of the path decides.
\<close>

theorem flv_live_iff_last_prePublish:
  "flv_live (fst (flv_run cfg (publish_events p bs) s)) p
     = (if bs = [] then flv_live s p else fst (last bs))
   \<and> flv_live (fst (flv_run cfg (publish_events p bs) flv_init)) p
       = (bs \<noteq> [] \<and> fst (last bs))
   \<and> flv_live (fst (flv_run cfg evs flv_init)) p = (last_pub p evs = Some True)"
proof -
  have general: "flv_live (fst (flv_run cfg evs flv_init)) p = (last_pub p evs = Some True)"
    by (cases "last_pub p evs") (simp_all add: flv_live_run flv_init_not_live)
  have from_any: "flv_live (fst (flv_run cfg (publish_events p bs) s)) p
     = (if bs = [] then flv_live s p else fst (last bs))" for s
    by (simp add: flv_live_run last_pub_publish_events)
  have from_init: "flv_live (fst (flv_run cfg (publish_events p bs) flv_init)) p
       = (bs \<noteq> [] \<and> fst (last bs))"
    by (simp add: from_any flv_init_not_live)
  from from_any [of s] from_init general show ?thesis
    by blast
qed

theorem flv_live_iff_last_prePublish_witness:
  "flv_live (fst (flv_run test_config
       (publish_events ''/live/stream'' [(True, ''c1''), (False, ''c1''), (True, ''c2'')])
       flv_init)) ''/live/stream''
   \<and> \<not> flv_live (fst (flv_run test_config
       (publish_events ''/live/stream'' [(True, ''c1''), (True, ''c2''), (False, ''c2'')])
       flv_init)) ''/live/stream''
   \<and> \<not> flv_live (fst (flv_run test_config (publish_events ''/live/stream'' []) flv_init))
       ''/live/stream''"
  using
    flv_live_iff_last_prePublish [of test_config "''/live/stream''"
      "[(True, ''c1''), (False, ''c1''), (True, ''c2'')]" flv_init "[]"]
    flv_live_iff_last_prePublish [of test_config "''/live/stream''"
      "[(True, ''c1''), (True, ''c2''), (False, ''c2'')]" flv_init "[]"]
    flv_live_iff_last_prePublish [of test_config "''/live/stream''" "[]" flv_init "[]"]
  by simp

lemma flv_other_publishing_eq:
  "flv_other_publishing = \<lparr>activeStreams = [''/live/other''], clients = []\<rparr>"
  by (simp add: flv_other_publishing_def flv_prePublish_def flv_init_def Set_add_def)

lemma flv_publishing_eq:
  "flv_publishing = \<lparr>activeStreams = [''/live/stream''], clients = []\<rparr>"
  by (simp add: flv_publishing_def flv_prePublish_def flv_init_def Set_add_def)

text \<open>
  C10. The two liveness views of the FLV variant differ. The \<^verbatim>\<open>streamStatus\<close> message sent
  to a newly connected viewer alone says live exactly when \<^verbatim>\<open>activeStreams\<close> is not empty, and
  always names the path \<^verbatim>\<open>/live/stream\<close>; \<^verbatim>\<open>/api/info\<close> says live exactly when \<^verbatim>\<open>activeStreams\<close>
  contains \<^verbatim>\<open>/live/stream\<close>. After a publish under \<^verbatim>\<open>/live/other\<close>, a reachable state, the
  message says live and \<^verbatim>\<open>/api/info\<close> says not live.
\<close>

theorem flv_liveness_views_disagree:
  "SocketEmit k ''streamStatus'' (Status (activeStreams s \<noteq> []) ''/live/stream'')
     \<in> set (snd (flv_step cfg (FConnection k) s))
   \<and> map_of (flv_api_info cfg s) ''isLive''
       = Some (JBool (''/live/stream'' \<in> set (activeStreams s)))
   \<and> flv_other_publishing = fst (flv_run test_config [FPrePublish ''c1'' ''/live/other''] flv_init)
   \<and> SocketEmit 7 ''streamStatus'' (Status True ''/live/stream'')
       \<in> set (snd (flv_step test_config (FConnection 7) flv_other_publishing))
   \<and> map_of (flv_api_info test_config flv_other_publishing) ''isLive'' = Some (JBool False)"
proof -
  have unicast: "SocketEmit k ''streamStatus'' (Status (activeStreams s \<noteq> []) ''/live/stream'')
     \<in> set (snd (flv_step cfg (FConnection k) s))" for k cfg s
    by (simp add: flv_connection_def Let_def Set_size_def APP_NAME_def STREAM_KEY_def)
  have info: "map_of (flv_api_info cfg s) ''isLive''
       = Some (JBool (''/live/stream'' \<in> set (activeStreams s)))" for cfg s
    by (simp add: flv_api_info_def Set_has_def APP_NAME_def STREAM_KEY_def)
  have there: "activeStreams flv_other_publishing \<noteq> []"
    and not_there: "''/live/stream'' \<notin> set (activeStreams flv_other_publishing)"
    by (simp_all add: flv_other_publishing_eq)
  have reached:
    "flv_other_publishing = fst (flv_run test_config [FPrePublish ''c1'' ''/live/other''] flv_init)"
    by (rule flv_other_publishing_def)
  have says_live: "SocketEmit 7 ''streamStatus'' (Status True ''/live/stream'')
       \<in> set (snd (flv_step test_config (FConnection 7) flv_other_publishing))"
    using unicast [of 7 flv_other_publishing test_config] there by simp
  have says_not_live:
    "map_of (flv_api_info test_config flv_other_publishing) ''isLive'' = Some (JBool False)"
    using info [of test_config flv_other_publishing] not_there by simp
  from unicast [of k s cfg] info [of cfg s] reached says_live says_not_live show ?thesis
    by blast
qed

text \<open>
  C1, as the code has it. In the FLV variant every \<^verbatim>\<open>donePublish\<close> removes the path of the
  event from \<^verbatim>\<open>activeStreams\<close>, so that the path is no longer recorded live, leaves every
  other path and the viewers as they were, and broadcasts \<^verbatim>\<open>streamStatus\<close> with live false
  and that path to all connected viewers; \<^verbatim>\<open>doneConnect\<close> only logs. In the HLS variant
  \<^verbatim>\<open>donePublish\<close> only logs. No listener asks a child process to terminate.
\<close>

theorem donePublish_marks_not_live_and_broadcasts:
  "\<not> flv_live (fst (flv_step cfg (FDonePublish cid p) s)) p
   \<and> (q \<noteq> p \<longrightarrow> flv_live (fst (flv_step cfg (FDonePublish cid p) s)) q = flv_live s q)
   \<and> clients (fst (flv_step cfg (FDonePublish cid p) s)) = clients s
   \<and> snd (flv_step cfg (FDonePublish cid p) s)
       = [Log Stream (''Stream ended: '' @ p), IoEmit ''streamStatus'' (Status False p)]
   \<and> recipients (clients s) (IoEmit ''streamStatus'' (Status False p)) = clients s
   \<and> flv_step cfg (FDoneConnect cid) s = (s, [Log Stream (''Client disconnected: '' @ cid)])
   \<and> hls_step cfg (HDonePublish cid p) h = (h, [Log Console (''[NMS donePublish] '' @ p)])"
  by (simp add: flv_live_def Set_has_def Set_delete_def flv_donePublish_def flv_doneConnect_def
      hls_donePublish_def)

theorem donePublish_marks_not_live_and_broadcasts_witness:
  "flv_live flv_publishing ''/live/stream''
   \<and> \<not> flv_live (fst (flv_step test_config (FDonePublish ''c1'' ''/live/stream'') flv_publishing))
       ''/live/stream''
   \<and> ''/live/other'' \<noteq> ''/live/stream''
   \<and> flv_live (fst (flv_step test_config (FDonePublish ''c1'' ''/live/other'') flv_publishing))
       ''/live/stream''"
proof -
  have live: "flv_live flv_publishing ''/live/stream''"
    by (simp add: flv_publishing_eq flv_live_def Set_has_def)
  show ?thesis
    using live
      donePublish_marks_not_live_and_broadcasts
        [of test_config "''c1''" "''/live/stream''" flv_publishing "''/live/other''"]
      donePublish_marks_not_live_and_broadcasts
        [of test_config "''c1''" "''/live/other''" flv_publishing "''/live/stream''"]
    by simp
qed

text \<open>
  C1 as stated fails. While the HLS variant is publishing and its child is tracked,
  \<^verbatim>\<open>donePublish\<close> for the published path changes nothing and only logs: it asks no child to
  terminate and broadcasts nothing. While the FLV variant records \<^verbatim>\<open>/live/stream\<close> live,
  \<^verbatim>\<open>doneConnect\<close> leaves it live and broadcasts nothing.
\<close>

theorem donePublish_stops_transcoder_counterexample:
  "ffmpegProc hls_publishing = Some 0
   \<and> children hls_publishing = [0]
   \<and> hls_step test_config (HDonePublish ''c1'' ''/input/stream'') hls_publishing
       = (hls_publishing, [Log Console ''[NMS donePublish] /input/stream''])
   \<and> flv_live flv_publishing ''/live/stream''
   \<and> flv_step test_config (FDoneConnect ''c1'') flv_publishing
       = (flv_publishing, [Log Stream ''Client disconnected: c1''])"
  by (simp add: hls_publishing_eq hls_donePublish_def flv_publishing_eq flv_live_def
      Set_has_def flv_doneConnect_def)


section \<open>Viewer counts\<close>

lemma Set_add_new: "k \<notin> set xs \<Longrightarrow> Set_add k xs = xs @ [k]"
  by (simp add: Set_add_def)

lemma distinct_Set_add: "distinct xs \<Longrightarrow> distinct (Set_add k xs)"
  by (simp add: Set_add_def)

lemma distinct_Set_delete: "distinct xs \<Longrightarrow> distinct (Set_delete k xs)"
  by (simp add: Set_delete_def distinct_removeAll)

lemma length_Set_delete:
  "distinct xs \<Longrightarrow> k \<in> set xs \<Longrightarrow> Suc (length (Set_delete k xs)) = length xs"
proof -
  assume d: "distinct xs" and k: "k \<in> set xs"
  from d have "Set_delete k xs = remove1 k xs"
    by (simp add: Set_delete_def distinct_remove1_removeAll)
  moreover from k have "0 < length xs"
    by (cases xs) simp_all
  ultimately show ?thesis
    using k by (simp add: length_remove1)
qed

lemma counts_append: "counts (xs @ ys) = counts xs @ counts ys"
  by (induction xs rule: counts.induct) simp_all

lemma flv_clients_step:
  "clients (fst (flv_step cfg e s))
     = (case e of FConnection k \<Rightarrow> Set_add k (clients s)
        | FDisconnect k \<Rightarrow> Set_delete k (clients s)
        | _ \<Rightarrow> clients s)"
  by (cases e) (simp_all add: flv_handler_defs flv_process_defs Let_def)

lemma flv_counts_step:
  "counts (snd (flv_step cfg e s))
     = (if flv_is_connect e \<or> flv_is_disconnect e
        then [length (clients (fst (flv_step cfg e s)))] else [])"
proof (cases e)
  case (FGet r ip)
  then show ?thesis
    by (cases r) (simp_all add: flv_get_def)
qed (simp_all add: flv_handler_defs flv_process_defs Let_def Set_size_def)

lemma flv_distinct_step: "distinct (clients s) \<Longrightarrow> distinct (clients (fst (flv_step cfg e s)))"
  by (cases e) (simp_all del: flv_step.simps add: flv_clients_step distinct_Set_add distinct_Set_delete)

lemma flv_balance:
  "flv_wf cfg evs s \<Longrightarrow> distinct (clients s) \<Longrightarrow>
   length (clients (fst (flv_run cfg evs s))) + flv_disconnects evs
     = length (clients s) + flv_connects evs"
proof (induction evs arbitrary: s)
  case Nil
  show ?case by (simp add: flv_connects_def flv_disconnects_def)
next
  case (Cons e es)
  let ?s = "fst (flv_step cfg e s)"
  from Cons.prems have ok: "flv_ok s e" and wf: "flv_wf cfg es ?s"
    by (simp_all del: flv_step.simps)
  from Cons.prems have d: "distinct (clients ?s)"
    by (simp add: flv_distinct_step)
  have rest: "length (clients (fst (flv_run cfg es ?s))) + flv_disconnects es
     = length (clients ?s) + flv_connects es"
    using wf d by (rule Cons.IH)
  have step: "length (clients ?s) + (if flv_is_disconnect e then 1 else 0)
     = length (clients s) + (if flv_is_connect e then 1 else 0)"
    using ok Cons.prems(2) length_Set_delete [of "clients s"]
    by (cases e) (simp_all del: flv_step.simps add: flv_clients_step Set_add_new)
  have c: "flv_connects (e # es) = (if flv_is_connect e then 1 else 0) + flv_connects es"
    and dc: "flv_disconnects (e # es) = (if flv_is_disconnect e then 1 else 0) + flv_disconnects es"
    by (simp_all add: flv_connects_def flv_disconnects_def)
  show ?case
    unfolding fst_flv_run_Cons c dc using rest step by simp
qed

lemma flv_last_count:
  "last (length (clients s) # counts (snd (flv_run cfg evs s)))
     = length (clients (fst (flv_run cfg evs s)))"
proof (induction evs arbitrary: s)
  case Nil
  show ?case by simp
next
  case (Cons e es)
  let ?s = "fst (flv_step cfg e s)"
  show ?case
  proof (cases "flv_is_connect e \<or> flv_is_disconnect e")
    case True
    then show ?thesis
      using Cons.IH [of ?s]
      by (simp del: flv_run.simps flv_step.simps add: fst_flv_run_Cons snd_flv_run_Cons counts_append flv_counts_step)
  next
    case False
    then have "clients ?s = clients s"
      by (cases e) (simp_all del: flv_step.simps add: flv_clients_step)
    with False show ?thesis
      using Cons.IH [of ?s]
      by (simp del: flv_run.simps flv_step.simps add: fst_flv_run_Cons snd_flv_run_Cons counts_append flv_counts_step)
  qed
qed

lemma flv_counts_length:
  "length (counts (snd (flv_run cfg evs s))) = flv_connects evs + flv_disconnects evs"
proof (induction evs arbitrary: s)
  case Nil
  show ?case by (simp add: flv_connects_def flv_disconnects_def)
next
  case (Cons e es)
  show ?case
    using Cons.IH [of "fst (flv_step cfg e s)"]
    by (cases e)
       (simp_all del: flv_run.simps flv_step.simps
          add: snd_flv_run_Cons counts_append flv_counts_step flv_connects_def flv_disconnects_def)
qed

lemma fst_hls_run_Cons:
  "fst (hls_run cfg (e # es) s) = fst (hls_run cfg es (fst (hls_step cfg e s)))"
  by (simp split: prod.splits)

lemma snd_hls_run_Cons:
  "snd (hls_run cfg (e # es) s)
     = snd (hls_step cfg e s) @ snd (hls_run cfg es (fst (hls_step cfg e s)))"
  by (simp split: prod.splits)

lemma hls_prePublish_cases:
  "hls_prePublish cfg cid p s
     = (if p = ''/input/stream'' \<and> ffmpegProc s = None
        then (s\<lparr>children := children s @ [spawned s], spawned := Suc (spawned s),
                ffmpegProc := Some (spawned s)\<rparr>,
              [Log Console (''[NMS prePublish] '' @ p),
               Spawn ''ffmpeg'' (ffmpeg_args cfg),
               Log Console (''[FFmpeg] Started (PID: '' @ show_nat (spawned s) @ '')'')])
        else (s, [Log Console (''[NMS prePublish] '' @ p)]))"
proof (cases "ffmpegProc s = None")
  case True
  then show ?thesis
    by (simp add: hls_prePublish_def INPUT_APP_def STREAM_KEY_def startFFmpeg_untracked)
next
  case False
  then obtain c where "ffmpegProc s = Some c"
    by blast
  then show ?thesis
    by (simp add: hls_prePublish_def INPUT_APP_def STREAM_KEY_def startFFmpeg_tracked)
qed

lemmas hls_handler_defs =
  hls_connection_def hls_disconnect_def hls_donePublish_def ffmpeg_on_stderr_def
  ffmpeg_on_exit_def hls_root_def hls_process_on_def

lemma hls_clients_step:
  "hls_state.clients (fst (hls_step cfg e s))
     = (case e of HConnection k \<Rightarrow> Set_add k (hls_state.clients s)
        | HDisconnect k \<Rightarrow> Set_delete k (hls_state.clients s)
        | _ \<Rightarrow> hls_state.clients s)"
  by (cases e) (simp_all add: hls_handler_defs hls_prePublish_cases Let_def)

lemma hls_counts_step:
  "counts (snd (hls_step cfg e s))
     = (if hls_is_connect e \<or> hls_is_disconnect e
        then [length (hls_state.clients (fst (hls_step cfg e s)))] else [])"
  by (cases e) (simp_all add: hls_handler_defs hls_prePublish_cases Let_def Set_size_def)

lemma hls_distinct_step:
  "distinct (hls_state.clients s) \<Longrightarrow> distinct (hls_state.clients (fst (hls_step cfg e s)))"
  by (cases e) (simp_all del: hls_step.simps add: hls_clients_step distinct_Set_add distinct_Set_delete)

lemma hls_balance:
  "hls_wf cfg evs s \<Longrightarrow> distinct (hls_state.clients s) \<Longrightarrow>
   length (hls_state.clients (fst (hls_run cfg evs s))) + hls_disconnects evs
     = length (hls_state.clients s) + hls_connects evs"
proof (induction evs arbitrary: s)
  case Nil
  show ?case by (simp add: hls_connects_def hls_disconnects_def)
next
  case (Cons e es)
  let ?s = "fst (hls_step cfg e s)"
  from Cons.prems have ok: "hls_ok s e" and wf: "hls_wf cfg es ?s"
    by (simp_all del: hls_step.simps)
  from Cons.prems have d: "distinct (hls_state.clients ?s)"
    by (simp add: hls_distinct_step)
  have rest: "length (hls_state.clients (fst (hls_run cfg es ?s))) + hls_disconnects es
     = length (hls_state.clients ?s) + hls_connects es"
    using wf d by (rule Cons.IH)
  have step: "length (hls_state.clients ?s) + (if hls_is_disconnect e then 1 else 0)
     = length (hls_state.clients s) + (if hls_is_connect e then 1 else 0)"
    using ok Cons.prems(2) length_Set_delete [of "hls_state.clients s"]
    by (cases e) (simp_all del: hls_step.simps add: hls_clients_step Set_add_new)
  have c: "hls_connects (e # es) = (if hls_is_connect e then 1 else 0) + hls_connects es"
    and dc: "hls_disconnects (e # es) = (if hls_is_disconnect e then 1 else 0) + hls_disconnects es"
    by (simp_all add: hls_connects_def hls_disconnects_def)
  show ?case
    unfolding fst_hls_run_Cons c dc using rest step by simp
qed

lemma hls_last_count:
  "last (length (hls_state.clients s) # counts (snd (hls_run cfg evs s)))
     = length (hls_state.clients (fst (hls_run cfg evs s)))"
proof (induction evs arbitrary: s)
  case Nil
  show ?case by simp
next
  case (Cons e es)
  let ?s = "fst (hls_step cfg e s)"
  show ?case
  proof (cases "hls_is_connect e \<or> hls_is_disconnect e")
    case True
    then show ?thesis
      using Cons.IH [of ?s]
      by (simp del: hls_run.simps hls_step.simps add: fst_hls_run_Cons snd_hls_run_Cons counts_append hls_counts_step)
  next
    case False
    then have "hls_state.clients ?s = hls_state.clients s"
      by (cases e) (simp_all del: hls_step.simps add: hls_clients_step)
    with False show ?thesis
      using Cons.IH [of ?s]
      by (simp del: hls_run.simps hls_step.simps add: fst_hls_run_Cons snd_hls_run_Cons counts_append hls_counts_step)
  qed
qed

lemma hls_counts_length:
  "length (counts (snd (hls_run cfg evs s))) = hls_connects evs + hls_disconnects evs"
proof (induction evs arbitrary: s)
  case Nil
  show ?case by (simp add: hls_connects_def hls_disconnects_def)
next
  case (Cons e es)
  show ?case
    using Cons.IH [of "fst (hls_step cfg e s)"]
    by (cases e)
       (simp_all del: hls_run.simps hls_step.simps
          add: snd_hls_run_Cons counts_append hls_counts_step hls_connects_def hls_disconnects_def)
qed


text \<open>
  C6. In every run that the environment can produce from the start of either program, with
  N connections and M disconnections of viewers interleaved with any other events, M is at
  most N, the set of viewers has N - M members at the end, the last viewer count broadcast
  is N - M, and there is one broadcast per connection or disconnection. Each connection and
  each disconnection callback broadcasts the size of the updated set with \<^verbatim>\<open>io.emit\<close>, which
  reaches every connected socket.
\<close>

theorem viewer_count_is_connects_minus_disconnects:
  assumes "flv_wf cfg evs flv_init" and "hls_wf cfg hevs hls_init"
  shows "flv_disconnects evs \<le> flv_connects evs
   \<and> Set_size (clients (fst (flv_run cfg evs flv_init))) = flv_connects evs - flv_disconnects evs
   \<and> last (0 # counts (snd (flv_run cfg evs flv_init))) = flv_connects evs - flv_disconnects evs
   \<and> length (counts (snd (flv_run cfg evs flv_init))) = flv_connects evs + flv_disconnects evs
   \<and> hls_disconnects hevs \<le> hls_connects hevs
   \<and> Set_size (hls_state.clients (fst (hls_run cfg hevs hls_init)))
       = hls_connects hevs - hls_disconnects hevs
   \<and> last (0 # counts (snd (hls_run cfg hevs hls_init)))
       = hls_connects hevs - hls_disconnects hevs
   \<and> length (counts (snd (hls_run cfg hevs hls_init))) = hls_connects hevs + hls_disconnects hevs
   \<and> IoEmit ''viewerCount'' (Count (Set_size (clients (fst (flv_step cfg (FConnection k) s)))))
       \<in> set (snd (flv_step cfg (FConnection k) s))
   \<and> IoEmit ''viewerCount'' (Count (Set_size (clients (fst (flv_step cfg (FDisconnect k) s)))))
       \<in> set (snd (flv_step cfg (FDisconnect k) s))
   \<and> IoEmit ''viewerCount''
         (Count (Set_size (hls_state.clients (fst (hls_step cfg (HConnection k) h)))))
       \<in> set (snd (hls_step cfg (HConnection k) h))
   \<and> IoEmit ''viewerCount''
         (Count (Set_size (hls_state.clients (fst (hls_step cfg (HDisconnect k) h)))))
       \<in> set (snd (hls_step cfg (HDisconnect k) h))
   \<and> recipients cs (IoEmit ''viewerCount'' (Count n)) = cs"
proof -
  have f0: "clients flv_init = []" and h0: "hls_state.clients hls_init = []"
    by (simp_all add: flv_init_def hls_init_def)
  have fb: "length (clients (fst (flv_run cfg evs flv_init))) + flv_disconnects evs
      = flv_connects evs"
    using flv_balance [OF assms(1)] by (simp add: f0)
  have hb: "length (hls_state.clients (fst (hls_run cfg hevs hls_init))) + hls_disconnects hevs
      = hls_connects hevs"
    using hls_balance [OF assms(2)] by (simp add: h0)
  have fl: "last (0 # counts (snd (flv_run cfg evs flv_init)))
      = length (clients (fst (flv_run cfg evs flv_init)))"
    using flv_last_count [of flv_init cfg evs] by (simp only: f0 list.size)
  have hl: "last (0 # counts (snd (hls_run cfg hevs hls_init)))
      = length (hls_state.clients (fst (hls_run cfg hevs hls_init)))"
    using hls_last_count [of hls_init cfg hevs] by (simp only: h0 list.size)
  have runs: "flv_disconnects evs \<le> flv_connects evs
   \<and> Set_size (clients (fst (flv_run cfg evs flv_init))) = flv_connects evs - flv_disconnects evs
   \<and> last (0 # counts (snd (flv_run cfg evs flv_init))) = flv_connects evs - flv_disconnects evs
   \<and> hls_disconnects hevs \<le> hls_connects hevs
   \<and> Set_size (hls_state.clients (fst (hls_run cfg hevs hls_init)))
       = hls_connects hevs - hls_disconnects hevs
   \<and> last (0 # counts (snd (hls_run cfg hevs hls_init)))
       = hls_connects hevs - hls_disconnects hevs"
    unfolding fl hl Set_size_def using fb hb by arith
  have steps: "IoEmit ''viewerCount'' (Count (Set_size (clients (fst (flv_step cfg (FConnection k) s)))))
       \<in> set (snd (flv_step cfg (FConnection k) s))
   \<and> IoEmit ''viewerCount'' (Count (Set_size (clients (fst (flv_step cfg (FDisconnect k) s)))))
       \<in> set (snd (flv_step cfg (FDisconnect k) s))
   \<and> IoEmit ''viewerCount''
         (Count (Set_size (hls_state.clients (fst (hls_step cfg (HConnection k) h)))))
       \<in> set (snd (hls_step cfg (HConnection k) h))
   \<and> IoEmit ''viewerCount''
         (Count (Set_size (hls_state.clients (fst (hls_step cfg (HDisconnect k) h)))))
       \<in> set (snd (hls_step cfg (HDisconnect k) h))
   \<and> recipients cs (IoEmit ''viewerCount'' (Count n)) = cs"
    by (simp add: flv_connection_def flv_disconnect_def hls_connection_def hls_disconnect_def
        Let_def)
  from runs steps flv_counts_length [of cfg evs flv_init] hls_counts_length [of cfg hevs hls_init]
  show ?thesis
    by blast
qed

lemma flv_example_wf: "flv_wf test_config flv_example flv_init"
  by (simp add: flv_example_def flv_init_def flv_connection_def flv_prePublish_def
      flv_disconnect_def Let_def Set_add_def Set_delete_def)

lemma hls_example_wf: "hls_wf test_config hls_example hls_init"
  by (simp add: hls_example_def hls_init_def hls_connection_def hls_disconnect_def Let_def
      Set_add_def Set_delete_def)

lemma flv_example_counts: "counts (snd (flv_run test_config flv_example flv_init)) = [1, 2, 3, 2]"
  by (simp add: flv_example_def flv_init_def flv_connection_def flv_prePublish_def
      flv_disconnect_def Let_def Set_add_def Set_delete_def Set_size_def)

lemma hls_example_counts: "counts (snd (hls_run test_config hls_example hls_init)) = [1, 2, 1]"
  by (simp add: hls_example_def hls_init_def hls_connection_def hls_disconnect_def Let_def
      Set_add_def Set_delete_def Set_size_def)

lemma three_viewers_inboxes:
  "flv_inbox test_config 1 [FConnection 1, FConnection 2, FConnection 3] flv_init
     = [(''viewerCount'', Count 1), (''streamStatus'', Status False ''/live/stream''),
        (''viewerCount'', Count 2), (''viewerCount'', Count 3)]"
  "flv_inbox test_config 2 [FConnection 1, FConnection 2, FConnection 3] flv_init
     = [(''viewerCount'', Count 2), (''streamStatus'', Status False ''/live/stream''),
        (''viewerCount'', Count 3)]"
  "flv_inbox test_config 3 [FConnection 1, FConnection 2, FConnection 3] flv_init
     = [(''viewerCount'', Count 3), (''streamStatus'', Status False ''/live/stream'')]"
  "hls_inbox test_config 1 [HConnection 1, HConnection 2, HConnection 3] hls_init
     = [(''viewerCount'', Count 1), (''viewerCount'', Count 2), (''viewerCount'', Count 3)]"
  by (simp_all add: flv_init_def hls_init_def flv_connection_def hls_connection_def Let_def
      Set_add_def Set_size_def APP_NAME_def STREAM_KEY_def)

theorem viewer_count_is_connects_minus_disconnects_witness:
  "flv_wf test_config flv_example flv_init
   \<and> hls_wf test_config hls_example hls_init
   \<and> flv_connects flv_example = 3 \<and> flv_disconnects flv_example = 1
   \<and> counts (snd (flv_run test_config flv_example flv_init)) = [1, 2, 3, 2]
   \<and> Set_size (clients (fst (flv_run test_config flv_example flv_init))) = 2
   \<and> hls_connects hls_example = 2 \<and> hls_disconnects hls_example = 1
   \<and> counts (snd (hls_run test_config hls_example hls_init)) = [1, 2, 1]
   \<and> Set_size (hls_state.clients (fst (hls_run test_config hls_example hls_init))) = 1
   \<and> flv_inbox test_config 1 [FConnection 1, FConnection 2, FConnection 3] flv_init
       = [(''viewerCount'', Count 1), (''streamStatus'', Status False ''/live/stream''),
          (''viewerCount'', Count 2), (''viewerCount'', Count 3)]
   \<and> hls_inbox test_config 1 [HConnection 1, HConnection 2, HConnection 3] hls_init
       = [(''viewerCount'', Count 1), (''viewerCount'', Count 2), (''viewerCount'', Count 3)]"
proof -
  have n: "flv_connects flv_example = 3" "flv_disconnects flv_example = 1"
    "hls_connects hls_example = 2" "hls_disconnects hls_example = 1"
    by (simp_all add: flv_connects_def flv_disconnects_def hls_connects_def hls_disconnects_def
        flv_example_def hls_example_def)
  note t = viewer_count_is_connects_minus_disconnects [OF flv_example_wf hls_example_wf]
  from t have "Set_size (clients (fst (flv_run test_config flv_example flv_init)))
      = flv_connects flv_example - flv_disconnects flv_example"
    by blast
  then have a: "Set_size (clients (fst (flv_run test_config flv_example flv_init))) = 2"
    by (simp add: n)
  from t have "Set_size (hls_state.clients (fst (hls_run test_config hls_example hls_init)))
      = hls_connects hls_example - hls_disconnects hls_example"
    by blast
  then have b: "Set_size (hls_state.clients (fst (hls_run test_config hls_example hls_init))) = 1"
    by (simp add: n)
  from a b n flv_example_wf hls_example_wf flv_example_counts hls_example_counts
    three_viewers_inboxes(1) three_viewers_inboxes(4)
  show ?thesis
    by blast
qed


section \<open>The HTTP routes\<close>

text \<open>
  C7, as the code has it. In the FLV variant \<^verbatim>\<open>/api/info\<close> answers with exactly the fields
  \<^verbatim>\<open>ip\<close>, \<^verbatim>\<open>flv\<close>, \<^verbatim>\<open>rtmpIngest\<close>, \<^verbatim>\<open>isLive\<close> and \<^verbatim>\<open>viewers\<close>, where \<^verbatim>\<open>isLive\<close> is the recorded
  liveness of \<^verbatim>\<open>/live/stream\<close> and \<^verbatim>\<open>viewers\<close> the size of \<^verbatim>\<open>clients\<close>; \<^verbatim>\<open>/health\<close> answers with
  exactly \<^verbatim>\<open>status\<close>, \<^verbatim>\<open>uptime\<close>, \<^verbatim>\<open>timestamp\<close>, \<^verbatim>\<open>activeStreams\<close> and \<^verbatim>\<open>viewers\<close>, where
  \<^verbatim>\<open>activeStreams\<close> is the size of the set of published paths. Neither request changes the
  state. In the HLS variant \<^verbatim>\<open>/api/info\<close> answers with exactly \<^verbatim>\<open>ip\<close>, \<^verbatim>\<open>rtmpIngest\<close> and \<^verbatim>\<open>hls\<close>.
\<close>

theorem http_query_fields:
  "flv_step cfg (FGet ApiInfo ip) s
     = (s, [Log Info (''GET /api/info from '' @ ip), ResJson (flv_api_info cfg s)])
   \<and> map fst (flv_api_info cfg s) = [''ip'', ''flv'', ''rtmpIngest'', ''isLive'', ''viewers'']
   \<and> map_of (flv_api_info cfg s) ''isLive'' = Some (JBool (flv_live s ''/live/stream''))
   \<and> map_of (flv_api_info cfg s) ''viewers'' = Some (JNat (Set_size (clients s)))
   \<and> flv_step cfg (FGet (Health up ts) ip) s
       = (s, [Log Info (''GET /health from '' @ ip), ResJson (flv_health up ts s)])
   \<and> map fst (flv_health up ts s)
       = [''status'', ''uptime'', ''timestamp'', ''activeStreams'', ''viewers'']
   \<and> map_of (flv_health up ts s) ''status'' = Some (JString ''ok'')
   \<and> map_of (flv_health up ts s) ''uptime'' = Some (JReal up)
   \<and> map_of (flv_health up ts s) ''timestamp'' = Some (JString ts)
   \<and> map_of (flv_health up ts s) ''activeStreams'' = Some (JNat (Set_size (activeStreams s)))
   \<and> map_of (flv_health up ts s) ''viewers'' = Some (JNat (Set_size (clients s)))
   \<and> hls_step cfg HGetApiInfo h = (h, [ResJson (hls_api_info cfg)])
   \<and> map fst (hls_api_info cfg) = [''ip'', ''rtmpIngest'', ''hls'']"
  by (simp add: flv_get_def flv_api_info_def flv_health_def hls_api_info_def flv_live_def
      APP_NAME_def STREAM_KEY_def)

theorem http_query_fields_witness:
  "map_of (flv_api_info test_config flv_publishing) ''isLive'' = Some (JBool True)
   \<and> map_of (flv_api_info test_config flv_publishing) ''viewers'' = Some (JNat 0)
   \<and> map_of (flv_health 12.5 ''2026-01-01T00:00:00.000Z'' flv_publishing) ''activeStreams''
       = Some (JNat 1)
   \<and> map_of (flv_api_info test_config flv_publishing) ''flv''
       = Some (JString ''http://192.168.1.20:8000/live/stream.flv'')
   \<and> map_of (flv_api_info test_config flv_publishing) ''rtmpIngest''
       = Some (JString ''rtmp://192.168.1.20:1935/live/stream'')"
proof -
  have live: "flv_live flv_publishing ''/live/stream''"
    and sizes: "Set_size (clients flv_publishing) = 0" "Set_size (activeStreams flv_publishing) = 1"
    by (simp_all add: flv_publishing_eq flv_live_def Set_has_def Set_size_def)
  have urls: "map_of (flv_api_info test_config flv_publishing) ''flv''
       = Some (JString ''http://192.168.1.20:8000/live/stream.flv'')"
    "map_of (flv_api_info test_config flv_publishing) ''rtmpIngest''
       = Some (JString ''rtmp://192.168.1.20:1935/live/stream'')"
    by (simp_all add: flv_api_info_def test_config_def APP_NAME_def STREAM_KEY_def)
  show ?thesis
    using http_query_fields
      [of test_config "''10.0.0.2''" flv_publishing "12.5" "''2026-01-01T00:00:00.000Z''"]
      live sizes urls
    by simp
qed

text \<open>
  C7 as stated fails. The answer of the HLS variant to \<^verbatim>\<open>/api/info\<close> has three fields and
  neither \<^verbatim>\<open>isLive\<close> nor \<^verbatim>\<open>viewers\<close>, and the answer of the FLV variant names its locators
  \<^verbatim>\<open>rtmpIngest\<close> and \<^verbatim>\<open>flv\<close>, not \<^verbatim>\<open>ingestLocator\<close> and \<^verbatim>\<open>deliveryLocator\<close>.
\<close>

theorem api_info_five_fields_counterexample:
  "hls_step test_config HGetApiInfo hls_publishing
     = (hls_publishing,
        [ResJson [(''ip'', JString ''192.168.1.20''),
                  (''rtmpIngest'', JString ''rtmp://192.168.1.20:1935/input/stream''),
                  (''hls'', JString ''http://192.168.1.20:3000/live/stream.m3u8'')]])
   \<and> map_of (hls_api_info test_config) ''isLive'' = None
   \<and> map_of (hls_api_info test_config) ''viewers'' = None
   \<and> map_of (flv_api_info test_config flv_init) ''ingestLocator'' = None
   \<and> map_of (flv_api_info test_config flv_init) ''deliveryLocator'' = None"
  by (simp add: hls_api_info_def flv_api_info_def test_config_def INPUT_APP_def STREAM_KEY_def)


section \<open>Exit of the transcoder and process signals\<close>

lemma hls_spawn_iff:
  "list_ex is_Spawn (snd (hls_step cfg e s))
     = (\<exists>cid. e = HPrePublish cid ''/input/stream'' \<and> ffmpegProc s = None)"
  by (cases e) (simp_all add: hls_handler_defs hls_prePublish_cases Let_def)

lemma hls_no_kill: "\<not> list_ex is_Kill (snd (hls_step cfg e s))"
  by (cases e) (simp_all add: hls_handler_defs hls_prePublish_cases Let_def)

lemma flv_no_kill: "\<not> list_ex is_Kill (snd (flv_step cfg e s))"
proof (cases e)
  case (FGet r ip)
  then show ?thesis
    by (cases r) (simp_all add: flv_get_def)
qed (simp_all add: flv_handler_defs flv_process_defs Let_def)

lemma show_nat_1: "show_nat (Suc 0) = ''1''"
  by (simp add: show_nat.simps)

text \<open>
  C4, as the code has it. When the child exits, for whatever reason, the exit listener
  clears \<^verbatim>\<open>ffmpegProc\<close> and logs the exit code or signal, and does nothing else: it spawns
  nothing. The only event whose callback spawns a child is a \<^verbatim>\<open>prePublish\<close> of
  \<^verbatim>\<open>/input/stream\<close> while no child is tracked, and after any exit such a publish spawns again,
  without a limit on the number of exits before. If the exiting child was the tracked and
  only one, no child runs afterwards.
\<close>

theorem ffmpeg_exit_clears_handle_only:
  "hls_step cfg (HFfmpegExit c code signal) s
     = (s\<lparr>children := removeAll c (children s), ffmpegProc := None\<rparr>,
        [Log Console (CHR 0x0A # ''[FFmpeg] Exited ('' @ code_or_signal code signal @ '')'')])
   \<and> (list_ex is_Spawn (snd (hls_step cfg e s))
        = (\<exists>cid. e = HPrePublish cid ''/input/stream'' \<and> ffmpegProc s = None))
   \<and> list_ex is_Spawn (snd (hls_step cfg (HPrePublish cid ''/input/stream'')
                               (fst (hls_step cfg (HFfmpegExit c code signal) s))))
   \<and> (hls_inv s \<and> c \<in> set (children s) \<longrightarrow>
        children (fst (hls_step cfg (HFfmpegExit c code signal) s)) = []
        \<and> hls_inv (fst (hls_step cfg (HFfmpegExit c code signal) s)))"
proof -
  have exit: "hls_step cfg (HFfmpegExit c code signal) s
     = (s\<lparr>children := removeAll c (children s), ffmpegProc := None\<rparr>,
        [Log Console (CHR 0x0A # ''[FFmpeg] Exited ('' @ code_or_signal code signal @ '')'')])"
    by (simp add: ffmpeg_on_exit_def)
  have again: "list_ex is_Spawn (snd (hls_step cfg (HPrePublish cid ''/input/stream'')
                               (fst (hls_step cfg (HFfmpegExit c code signal) s))))"
    unfolding hls_spawn_iff by (simp add: ffmpeg_on_exit_def)
  have gone: "children (fst (hls_step cfg (HFfmpegExit c code signal) s)) = []
        \<and> hls_inv (fst (hls_step cfg (HFfmpegExit c code signal) s))"
    if "hls_inv s" and "c \<in> set (children s)"
    using that by (cases "ffmpegProc s") (simp_all add: ffmpeg_on_exit_def hls_inv_def)
  from exit again gone hls_spawn_iff [of cfg e s] show ?thesis
    by blast
qed

theorem ffmpeg_exit_clears_handle_only_witness:
  "hls_inv hls_publishing \<and> 0 \<in> set (children hls_publishing)
   \<and> children (fst (hls_step test_config (HFfmpegExit 0 (Some 1) None) hls_publishing)) = []
   \<and> ffmpegProc (fst (hls_step test_config (HFfmpegExit 0 (Some 1) None) hls_publishing)) = None
   \<and> list_ex is_Spawn (snd (hls_step test_config (HPrePublish ''c2'' ''/input/stream'')
        (fst (hls_step test_config (HFfmpegExit 0 (Some 1) None) hls_publishing))))"
proof -
  have inv: "hls_inv hls_publishing" and c: "0 \<in> set (children hls_publishing)"
    by (simp_all add: hls_publishing_eq hls_inv_def)
  note t = ffmpeg_exit_clears_handle_only
    [of test_config 0 "Some 1" None hls_publishing "HGetRoot" "''c2''"]
  from t inv c
  have a: "children (fst (hls_step test_config (HFfmpegExit 0 (Some 1) None) hls_publishing)) = []"
    by blast
  from t
  have b: "list_ex is_Spawn (snd (hls_step test_config (HPrePublish ''c2'' ''/input/stream'')
        (fst (hls_step test_config (HFfmpegExit 0 (Some 1) None) hls_publishing))))"
    by blast
  have n: "ffmpegProc (fst (hls_step test_config (HFfmpegExit 0 (Some 1) None) hls_publishing))
      = None"
    by (simp add: ffmpeg_on_exit_def)
  from inv c a b n show ?thesis
    by blast
qed

text \<open>
  C4 as stated fails. The tracked child of the publishing HLS variant exits with code 1,
  with no stop request before: the listener clears the handle and writes one log line. It
  starts no child and sets no timer, and the events that follow start none either, since
  none of them is a publish. The state has no restart budget and no error field.
\<close>

theorem ffmpeg_crash_restart_counterexample:
  "hls_step test_config (HFfmpegExit 0 (Some 1) None) hls_publishing
     = (\<lparr>hls_state.clients = [], ffmpegProc = None, children = [], spawned = 1\<rparr>,
        [Log Console (CHR 0x0A # ''[FFmpeg] Exited (1)'')])
   \<and> snd (hls_run test_config
             [HFfmpegExit 0 (Some 1) None, HDonePublish ''c1'' ''/input/stream'', HConnection 1]
             hls_publishing)
       = [Log Console (CHR 0x0A # ''[FFmpeg] Exited (1)''),
          Log Console ''[NMS donePublish] /input/stream'',
          IoEmit ''viewerCount'' (Count 1)]"
  by (simp add: hls_publishing_eq ffmpeg_on_exit_def code_or_signal_def show_nat_1
      hls_donePublish_def hls_connection_def Let_def Set_add_def Set_size_def)

text \<open>
  C5, as the code has it. The FLV variant answers \<^verbatim>\<open>SIGTERM\<close> and \<^verbatim>\<open>SIGINT\<close> by logging and
  asking the HTTP server to close; once that server has closed, its callback logs, stops the
  media server and exits with status 0, in this order. The HLS variant, the one that spawns
  a transcoder, registers no listener for any signal, so none of its code runs on one. No
  callback of either program asks a child process to terminate.
\<close>

theorem graceful_shutdown_sequence:
  "flv_step cfg (FProcess ''SIGTERM'') s
     = (s, [Log Warn ''SIGTERM received, shutting down gracefully...'', ServerClose])
   \<and> flv_step cfg (FProcess ''SIGINT'') s
     = (s, [Log Warn ''SIGINT received, shutting down gracefully...'', ServerClose])
   \<and> flv_step cfg FServerClosed s
     = (s, [Log Info ''HTTP server closed'', NmsStop, ProcessExit 0])
   \<and> hls_process_on sig = None
   \<and> hls_step cfg (HSignal sig) h = (h, [])
   \<and> \<not> list_ex is_Kill (snd (hls_step cfg e h))
   \<and> \<not> list_ex is_Kill (snd (flv_step cfg e' s))"
proof -
  have "flv_step cfg (FProcess ''SIGTERM'') s
     = (s, [Log Warn ''SIGTERM received, shutting down gracefully...'', ServerClose])"
    "flv_step cfg (FProcess ''SIGINT'') s
     = (s, [Log Warn ''SIGINT received, shutting down gracefully...'', ServerClose])"
    "flv_step cfg FServerClosed s
     = (s, [Log Info ''HTTP server closed'', NmsStop, ProcessExit 0])"
    "hls_process_on sig = None"
    "hls_step cfg (HSignal sig) h = (h, [])"
    by (simp_all add: flv_process_defs flv_server_closed_def hls_process_on_def)
  with hls_no_kill [of cfg e h] flv_no_kill [of cfg e' s] show ?thesis
    by blast
qed

theorem graceful_shutdown_sequence_witness:
  "snd (flv_run test_config [FProcess ''SIGTERM'', FServerClosed] flv_publishing)
     = [Log Warn ''SIGTERM received, shutting down gracefully...'', ServerClose,
        Log Info ''HTTP server closed'', NmsStop, ProcessExit 0]
   \<and> hls_step test_config (HSignal ''SIGINT'') hls_init = (hls_init, [])"
  using graceful_shutdown_sequence
    [of test_config flv_publishing "''SIGINT''" hls_init HGetRoot FServerClosed]
  by simp

text \<open>
  C5 as stated fails. While the HLS variant is publishing, its child runs. On \<^verbatim>\<open>SIGTERM\<close> or
  \<^verbatim>\<open>SIGINT\<close> the program has no listener: it performs nothing, so it closes no channel and
  asks no child to terminate, and the child is still among the running children.
\<close>

theorem shutdown_stops_transcoder_counterexample:
  "children hls_publishing = [0]
   \<and> hls_process_on ''SIGTERM'' = None
   \<and> hls_process_on ''SIGINT'' = None
   \<and> hls_step test_config (HSignal ''SIGTERM'') hls_publishing = (hls_publishing, [])
   \<and> hls_step test_config (HSignal ''SIGINT'') hls_publishing = (hls_publishing, [])
   \<and> children (fst (hls_step test_config (HSignal ''SIGTERM'') hls_publishing)) = [0]"
  by (simp add: hls_publishing_eq hls_process_on_def)


section \<open>The client when nothing is published\<close>

lemma show_info_no_consume: "\<not> list_ex is_consume (show_info env info)"
  by (simp add: show_info_def)

lemma init_without_consumers:
  assumes "reaches_consume env" and "consumeResp env = Some resp"
    and "consumers resp = None \<or> consumers resp = Some []"
  shows "init env = before_consume env @ retry_later"
proof -
  from assms(1) obtain info caps t where got:
    "fetch_info env = Some info" "rtpCapabilities env = Some caps" "device_load_ok env"
    "transportInfo env = Some t"
    by (auto simp: reaches_consume_def)
  from assms(3) show ?thesis
  proof
    assume "consumers resp = None"
    then show ?thesis
      by (simp add: init_def init_body_def before_consume_def got assms(2))
  next
    assume "consumers resp = Some []"
    then show ?thesis
      by (simp add: init_def init_body_def before_consume_def got assms(2))
  qed
qed

lemma before_consume_no_consume: "\<not> list_ex is_consume (before_consume env)"
  by (simp add: before_consume_def show_info_no_consume)

text \<open>
  C8. With no producer the server's answer to \<^verbatim>\<open>consume\<close> is the empty list, and it never
  holds more consumers than there are producers. When the answer has no consumers, missing
  or empty, \<^verbatim>\<open>init\<close> does what it did up to the request, warns, and sets a timer of 1000 ms
  on \<^verbatim>\<open>init\<close> itself; it consumes nothing, and the next attempt runs \<^verbatim>\<open>init\<close> from its first
  step.
\<close>

theorem no_producers_empty_answer_and_retry:
  "consumers (consume compatible name_of [] caps) = Some []
   \<and> length (the (consumers (consume compatible name_of ps caps))) \<le> length ps
   \<and> (reaches_consume env \<and> consumeResp env = Some resp
        \<and> (consumers resp = None \<or> consumers resp = Some []) \<longrightarrow>
        init env = before_consume env
                     @ [ConsoleWarn ''No consumers available yet. Retrying in 1s...'',
                        SetTimeoutInit 1000]
        \<and> \<not> list_ex is_consume (init env)
        \<and> negotiate (env # envs) = init env @ negotiate envs)
   \<and> (reaches_consume env \<and> consumeResp env = Some (consume compatible name_of [] caps) \<longrightarrow>
        init env = before_consume env
                     @ [ConsoleWarn ''No consumers available yet. Retrying in 1s...'',
                        SetTimeoutInit 1000])"
proof -
  have empty: "consumers (consume compatible name_of [] caps) = Some []"
    by (simp add: consume_def)
  have bounded: "length (the (consumers (consume compatible name_of ps caps))) \<le> length ps"
    by (simp add: consume_def)
  have retry: "init env = before_consume env
                     @ [ConsoleWarn ''No consumers available yet. Retrying in 1s...'',
                        SetTimeoutInit 1000]
        \<and> \<not> list_ex is_consume (init env)
        \<and> negotiate (env # envs) = init env @ negotiate envs"
    if "reaches_consume env" and "consumeResp env = Some resp"
      and "consumers resp = None \<or> consumers resp = Some []" for resp
  proof -
    from that have i: "init env = before_consume env @ retry_later"
      by (rule init_without_consumers)
    then show ?thesis
      by (simp add: retry_later_def before_consume_no_consume)
  qed
  from empty bounded retry retry [of "consume compatible name_of [] caps"] show ?thesis
    by blast
qed

theorem no_producers_empty_answer_and_retry_witness:
  "reaches_consume waiting_env
   \<and> consumeResp waiting_env = Some (consume (\<lambda>caps p. True) producer_id [] ''caps'')
   \<and> consumers (consume (\<lambda>caps p. True) producer_id [] ''caps'') = Some []
   \<and> init waiting_env
       = [Fetch ''/api/info'', SetText ''ip'' ''192.168.1.20'', SetText ''mac'' [],
          Emit ''getRouterRtpCapabilities'', DeviceLoad ''caps'', Emit ''createTransport'',
          CreateRecvTransport ''t1'', OnTransportConnect, Emit ''consume'',
          ConsoleWarn ''No consumers available yet. Retrying in 1s...'', SetTimeoutInit 1000]
   \<and> negotiate [waiting_env, streaming_env]
       = init waiting_env
         @ [Fetch ''/api/info'', SetText ''ip'' ''192.168.1.20'', SetText ''mac'' [],
            Emit ''getRouterRtpCapabilities'', DeviceLoad ''caps'', Emit ''createTransport'',
            CreateRecvTransport ''t1'', OnTransportConnect, Emit ''consume'',
            TransportConsume \<lparr>consumer_id = ''p1'', producerId = ''p1'', kind = ''video'',
                              rtpParameters = ''vp8''\<rparr>,
            SetSrcObject ''video'' ''p1'', Play ''video'', OnSocket ''consumer-resume-p1'',
            OnSocket ''stream-status'']"
proof -
  have r: "reaches_consume waiting_env"
    and c: "consumeResp waiting_env = Some (consume (\<lambda>caps p. True) producer_id [] ''caps'')"
    by (simp_all add: reaches_consume_def waiting_env_def)
  have b: "before_consume waiting_env
       = [Fetch ''/api/info'', SetText ''ip'' ''192.168.1.20'', SetText ''mac'' [],
          Emit ''getRouterRtpCapabilities'', DeviceLoad ''caps'', Emit ''createTransport'',
          CreateRecvTransport ''t1'', OnTransportConnect, Emit ''consume'']"
    by (simp add: before_consume_def waiting_env_def show_info_def or_empty_def)
  have second: "negotiate [streaming_env]
       = [Fetch ''/api/info'', SetText ''ip'' ''192.168.1.20'', SetText ''mac'' [],
            Emit ''getRouterRtpCapabilities'', DeviceLoad ''caps'', Emit ''createTransport'',
            CreateRecvTransport ''t1'', OnTransportConnect, Emit ''consume'',
            TransportConsume \<lparr>consumer_id = ''p1'', producerId = ''p1'', kind = ''video'',
                              rtpParameters = ''vp8''\<rparr>,
            SetSrcObject ''video'' ''p1'', Play ''video'', OnSocket ''consumer-resume-p1'',
            OnSocket ''stream-status'']"
    by (simp add: streaming_env_def waiting_env_def init_def init_body_def show_info_def
        or_empty_def consume_def camera_def attach_one_def)
  note t = no_producers_empty_answer_and_retry
    [of "\<lambda>caps p. True" producer_id "''caps''" "[]" waiting_env
        "consume (\<lambda>caps p. True) producer_id [] ''caps''" "[streaming_env]"]
  from t have e: "consumers (consume (\<lambda>caps p. True) producer_id [] ''caps'') = Some []"
    by blast
  from t r c e have i: "init waiting_env = before_consume waiting_env
                     @ [ConsoleWarn ''No consumers available yet. Retrying in 1s...'',
                        SetTimeoutInit 1000]"
    and n: "negotiate [waiting_env, streaming_env] = init waiting_env @ negotiate [streaming_env]"
    by blast+
  from r c e i n show ?thesis
    unfolding b second by simp
qed


section \<open>At most one transcoder\<close>

lemma hls_inv_init: "hls_inv hls_init"
  by (simp add: hls_inv_def hls_init_def)

lemma hls_inv_children:
  "hls_inv s \<Longrightarrow>
     length (children s) \<le> 1 \<and> set (children s) = set_option (ffmpegProc s)"
  by (cases "ffmpegProc s") (simp_all add: hls_inv_def)

lemma hls_inv_step: "hls_inv s \<Longrightarrow> hls_ok s e \<Longrightarrow> hls_inv (fst (hls_step cfg e s))"
proof (cases e)
  case (HFfmpegExit c code signal)
  assume "hls_inv s" and "hls_ok s e"
  with HFfmpegExit show ?thesis
    by (cases "ffmpegProc s") (simp_all add: ffmpeg_on_exit_def hls_inv_def)
next
  case (HPrePublish cid p)
  assume "hls_inv s"
  with HPrePublish show ?thesis
    by (simp add: hls_prePublish_cases hls_inv_def)
qed (simp_all add: hls_handler_defs hls_inv_def Let_def distinct_Set_add distinct_Set_delete)

lemma hls_inv_run: "hls_inv s \<Longrightarrow> hls_wf cfg evs s \<Longrightarrow> hls_inv (fst (hls_run cfg evs s))"
proof (induction evs arbitrary: s)
  case Nil
  then show ?case by simp
next
  case (Cons e es)
  from Cons.prems have "hls_inv (fst (hls_step cfg e s))"
    by (simp del: hls_step.simps add: hls_inv_step)
  moreover from Cons.prems have "hls_wf cfg es (fst (hls_step cfg e s))"
    by (simp del: hls_step.simps)
  ultimately show ?case
    unfolding fst_hls_run_Cons by (rule Cons.IH)
qed

text \<open>
  C2. \<^verbatim>\<open>startFFmpeg\<close> is idempotent: when a child is already tracked the call changes nothing
  and performs nothing; a second call right after a first one is such a call, the two calls
  together spawn at most one child, and afterwards exactly one child is running. In every
  run that the environment can produce from the start of the program, at most one child is
  running at the end, and it is the tracked one.
\<close>

theorem startFFmpeg_idempotent:
  "(ffmpegProc s \<noteq> None \<longrightarrow> startFFmpeg cfg s = (s, []))
   \<and> startFFmpeg cfg (fst (startFFmpeg cfg s)) = (fst (startFFmpeg cfg s), [])
   \<and> length (filter is_Spawn (snd (startFFmpeg cfg s)
                               @ snd (startFFmpeg cfg (fst (startFFmpeg cfg s))))) \<le> 1
   \<and> (hls_inv s \<longrightarrow>
        length (children (fst (startFFmpeg cfg (fst (startFFmpeg cfg s))))) = 1
        \<and> children (fst (startFFmpeg cfg (fst (startFFmpeg cfg s))))
            = [the (ffmpegProc (fst (startFFmpeg cfg s)))])
   \<and> (hls_wf cfg evs hls_init \<longrightarrow>
        length (children (fst (hls_run cfg evs hls_init))) \<le> 1
        \<and> set (children (fst (hls_run cfg evs hls_init)))
            = set_option (ffmpegProc (fst (hls_run cfg evs hls_init))))"
proof -
  let ?s1 = "fst (startFFmpeg cfg s)"
  have tracked: "ffmpegProc ?s1 \<noteq> None"
    by (rule startFFmpeg_tracks)
  have second: "startFFmpeg cfg ?s1 = (?s1, [])"
    using tracked by (rule startFFmpeg_tracked)
  have spawns: "length (filter is_Spawn (snd (startFFmpeg cfg s))) \<le> 1"
    by (cases "ffmpegProc s = None") (simp_all add: startFFmpeg_untracked startFFmpeg_tracked)
  have one: "children ?s1 = [the (ffmpegProc ?s1)]" if "hls_inv s"
  proof -
    from that have "hls_inv ?s1" by (rule startFFmpeg_inv)
    with tracked show ?thesis by (auto simp: hls_inv_def)
  qed
  have runs: "length (children (fst (hls_run cfg evs hls_init))) \<le> 1
        \<and> set (children (fst (hls_run cfg evs hls_init)))
            = set_option (ffmpegProc (fst (hls_run cfg evs hls_init)))"
    if "hls_wf cfg evs hls_init"
    using hls_inv_run [OF hls_inv_init that] by (rule hls_inv_children)
  have first: "ffmpegProc s \<noteq> None \<longrightarrow> startFFmpeg cfg s = (s, [])"
    by (simp add: startFFmpeg_tracked)
  have both: "length (filter is_Spawn (snd (startFFmpeg cfg s)
                               @ snd (startFFmpeg cfg (fst (startFFmpeg cfg s))))) \<le> 1"
    using spawns by (simp add: second)
  have after: "length (children (fst (startFFmpeg cfg ?s1))) = 1
      \<and> children (fst (startFFmpeg cfg ?s1)) = [the (ffmpegProc ?s1)]" if "hls_inv s"
    using one [OF that] by (simp add: second)
  from first second both after runs show ?thesis
    by blast
qed

theorem startFFmpeg_idempotent_witness:
  "startFFmpeg test_config (fst (startFFmpeg test_config hls_init))
     = (fst (startFFmpeg test_config hls_init), [])
   \<and> hls_inv hls_init
   \<and> children (fst (startFFmpeg test_config (fst (startFFmpeg test_config hls_init)))) = [0]
   \<and> ffmpegProc hls_publishing \<noteq> None
   \<and> startFFmpeg test_config hls_publishing = (hls_publishing, [])
   \<and> hls_wf test_config twice_published hls_init
   \<and> children (fst (hls_run test_config twice_published hls_init)) = [0]
   \<and> length (children (fst (hls_run test_config twice_published hls_init))) \<le> 1"
proof -
  have inv: "hls_inv hls_init"
    by (rule hls_inv_init)
  have wf: "hls_wf test_config twice_published hls_init"
    by (simp add: twice_published_def)
  have ch: "children (fst (hls_run test_config twice_published hls_init)) = [0]"
    by (simp add: twice_published_def hls_prePublish_cases hls_init_def)
  have first: "the (ffmpegProc (fst (startFFmpeg test_config hls_init))) = 0"
    by (simp add: startFFmpeg_def spawn_def hls_init_def)
  have pub: "ffmpegProc hls_publishing \<noteq> None"
    by (simp add: hls_publishing_eq)
  note a = startFFmpeg_idempotent [of hls_init test_config]
  note b = startFFmpeg_idempotent [of hls_publishing test_config twice_published]
  from b wf have c1: "length (children (fst (hls_run test_config twice_published hls_init))) \<le> 1"
    by blast
  from a have a1: "startFFmpeg test_config (fst (startFFmpeg test_config hls_init))
     = (fst (startFFmpeg test_config hls_init), [])"
    by blast
  from a inv have a2:
    "children (fst (startFFmpeg test_config (fst (startFFmpeg test_config hls_init))))
       = [the (ffmpegProc (fst (startFFmpeg test_config hls_init)))]"
    by blast
  from b pub have b1: "startFFmpeg test_config hls_publishing = (hls_publishing, [])"
    by blast
  show ?thesis
    using a1 a2 b1 inv pub first wf ch c1 by simp
qed

end
